theory Spec2Isabelle
  imports Complex_Main "HOL-Library.AList" "HOL-Library.Word"
begin

section \<open>Python errors\<close>

text \<open>
  The exceptions the class can end a call with. \<open>RuntimeError\<close> is the one the
  constructor raises itself on an unknown \<open>regression_type\<close>; the others come out of
  Python, numpy and pandas: reading an attribute that is not there, shapes or lengths that
  do not fit, an index out of range, and \<open>np.linalg.inv\<close> on a singular matrix.
  The source defines no exception class of its own and never issues a warning.
\<close>

datatype error = RuntimeError | AttributeError | ValueError | IndexError | LinAlgError

definition bindE :: "error + 'b \<Rightarrow> ('b \<Rightarrow> error + 'c) \<Rightarrow> error + 'c" where
  "bindE r f = (case r of Inl e \<Rightarrow> Inl e | Inr v \<Rightarrow> f v)"

text \<open>Reading \<open>self.a\<close>: an attribute no method has assigned yet raises AttributeError.\<close>

definition attr :: "'b option \<Rightarrow> error + 'b" where
  "attr v = (case v of None \<Rightarrow> Inl AttributeError | Some a \<Rightarrow> Inr a)"

section \<open>Numbers\<close>

text \<open>
  The arithmetic of the source is written once, over any type with \<open>0\<close>, \<open>1\<close>,
  \<open>+\<close>, \<open>-\<close>, \<open>*\<close>, \<open>/\<close> and \<open>abs\<close>, and read at three types.
  At \<^typ>\<open>real\<close> it is the exact arithmetic the formulas of the estimators are stated
  in: a table of dtype float64 with rounding left out (rounding is not modelled anywhere).
  At \<open>fl\<close>, below, it has the special values of IEEE 754 doubles, which is where a
  division by zero, an overflow of \<open>exp\<close> or \<open>log 0\<close> becomes visible: numpy
  does not raise on these, it returns an infinity or NaN (and prints a RuntimeWarning).
  At \<open>scalar\<close>, further below, every number carries its dtype, int64 or float64,
  which is where the silent wrap-around of numpy's integer arithmetic becomes visible.
\<close>

datatype fl = Fin real | PInf | NInf | NaN

text \<open>
  The largest finite double is \<open>2^1024 - 2^971\<close>. An exact result whose magnitude is at
  least \<open>2^1024 - 2^970\<close>, half a unit in the last place beyond it, rounds to an
  infinity; a smaller one is kept as it is.
\<close>

definition dbl_ovf :: real where
  "dbl_ovf = 2 ^ 1024 - 2 ^ 970"

definition ovf :: "real \<Rightarrow> fl" where
  "ovf r = (if dbl_ovf \<le> r then PInf else if r \<le> - dbl_ovf then NInf else Fin r)"

instantiation fl :: "{zero, one, plus, minus, uminus, times, inverse, abs}"
begin

definition zero_fl :: fl where "zero_fl = Fin 0"

definition one_fl :: fl where "one_fl = Fin 1"

fun uminus_fl :: "fl \<Rightarrow> fl" where
  "uminus_fl (Fin a) = Fin (- a)"
| "uminus_fl PInf = NInf"
| "uminus_fl NInf = PInf"
| "uminus_fl NaN = NaN"

fun plus_fl :: "fl \<Rightarrow> fl \<Rightarrow> fl" where
  "plus_fl NaN _ = NaN"
| "plus_fl _ NaN = NaN"
| "plus_fl (Fin a) (Fin b) = ovf (a + b)"
| "plus_fl PInf NInf = NaN"
| "plus_fl NInf PInf = NaN"
| "plus_fl PInf _ = PInf"
| "plus_fl _ PInf = PInf"
| "plus_fl NInf _ = NInf"
| "plus_fl _ NInf = NInf"

definition minus_fl :: "fl \<Rightarrow> fl \<Rightarrow> fl" where
  "minus_fl a b = a + (- b)"

fun times_fl :: "fl \<Rightarrow> fl \<Rightarrow> fl" where
  "times_fl NaN _ = NaN"
| "times_fl _ NaN = NaN"
| "times_fl (Fin a) (Fin b) = ovf (a * b)"
| "times_fl (Fin a) PInf = (if a = 0 then NaN else if 0 < a then PInf else NInf)"
| "times_fl (Fin a) NInf = (if a = 0 then NaN else if 0 < a then NInf else PInf)"
| "times_fl PInf (Fin b) = (if b = 0 then NaN else if 0 < b then PInf else NInf)"
| "times_fl NInf (Fin b) = (if b = 0 then NaN else if 0 < b then NInf else PInf)"
| "times_fl PInf PInf = PInf"
| "times_fl PInf NInf = NInf"
| "times_fl NInf PInf = NInf"
| "times_fl NInf NInf = PInf"

text \<open>
  Division: a finite number over zero is an infinity of its sign, \<open>0 / 0\<close> and
  \<open>inf / inf\<close> are NaN. The reals have one zero, so the zero divisor counts as \<open>+0\<close>.
\<close>

fun divide_fl :: "fl \<Rightarrow> fl \<Rightarrow> fl" where
  "divide_fl NaN _ = NaN"
| "divide_fl _ NaN = NaN"
| "divide_fl (Fin a) (Fin b) =
     (if b = 0 then (if a = 0 then NaN else if 0 < a then PInf else NInf) else ovf (a / b))"
| "divide_fl (Fin a) PInf = Fin 0"
| "divide_fl (Fin a) NInf = Fin 0"
| "divide_fl PInf (Fin b) = (if 0 \<le> b then PInf else NInf)"
| "divide_fl NInf (Fin b) = (if 0 \<le> b then NInf else PInf)"
| "divide_fl PInf PInf = NaN"
| "divide_fl PInf NInf = NaN"
| "divide_fl NInf PInf = NaN"
| "divide_fl NInf NInf = NaN"

fun inverse_fl :: "fl \<Rightarrow> fl" where
  "inverse_fl (Fin a) = (if a = 0 then PInf else ovf (1 / a))"
| "inverse_fl PInf = Fin 0"
| "inverse_fl NInf = Fin 0"
| "inverse_fl NaN = NaN"

fun abs_fl :: "fl \<Rightarrow> fl" where
  "abs_fl (Fin a) = Fin \<bar>a\<bar>"
| "abs_fl PInf = PInf"
| "abs_fl NInf = PInf"
| "abs_fl NaN = NaN"

instance ..

end

text \<open>\<open>np.exp\<close>, \<open>np.log\<close> and \<open>np.sqrt\<close> on doubles.\<close>

fun fl_exp :: "fl \<Rightarrow> fl" where
  "fl_exp (Fin a) = ovf (exp a)"
| "fl_exp PInf = PInf"
| "fl_exp NInf = Fin 0"
| "fl_exp NaN = NaN"

fun fl_log :: "fl \<Rightarrow> fl" where
  "fl_log (Fin a) = (if 0 < a then Fin (ln a) else if a = 0 then NInf else NaN)"
| "fl_log PInf = PInf"
| "fl_log NInf = NaN"
| "fl_log NaN = NaN"

fun fl_sqrt :: "fl \<Rightarrow> fl" where
  "fl_sqrt (Fin a) = (if 0 \<le> a then Fin (sqrt a) else NaN)"
| "fl_sqrt PInf = PInf"
| "fl_sqrt NInf = NaN"
| "fl_sqrt NaN = NaN"

fun is_finite :: "fl \<Rightarrow> bool" where
  "is_finite (Fin a) = True"
| "is_finite _ = False"

text \<open>An \<open>int\<close> of Python where a float is expected (\<open>n - k\<close>, \<open>num_obs\<close>).\<close>

fun float_of_nat :: "nat \<Rightarrow> 'a::{zero,one,plus}" where
  "float_of_nat 0 = 0"
| "float_of_nat (Suc n) = float_of_nat n + 1"

definition py_float :: "int \<Rightarrow> 'a::{zero,one,plus,uminus}" where
  "py_float i = (if i < 0 then - float_of_nat (nat (- i)) else float_of_nat (nat i))"

text \<open>
  A number with its dtype. \<open>pd.read_csv\<close> gives a column of whole numbers the dtype
  int64, \<open>add_intercept\<close> builds its column from the Python integers
  \<open>[1 for i in range(self.num_obs)]\<close>, int64 again, and \<open>np.array\<close> of a table
  whose columns are all int64 is an int64 array. On two int64 operands \<open>+\<close>,
  \<open>-\<close> and \<open>*\<close> (and so \<open>@\<close>) are computed modulo \<open>2^64\<close>, with no
  error and, on arrays, no warning. With a float64 operand the integer is converted first,
  and \<open>/\<close> is numpy's true division, which converts both. The literals \<open>0\<close> and
  \<open>1\<close> are integers, as Python's are.
\<close>

datatype scalar = Int64 "64 word" | Float64 fl

fun to_fl :: "scalar \<Rightarrow> fl" where
  "to_fl (Int64 w) = Fin (real_of_int (sint w))"
| "to_fl (Float64 a) = a"

instantiation scalar :: "{zero, one, plus, minus, uminus, times, inverse, abs}"
begin

definition zero_scalar :: scalar where "zero_scalar = Int64 0"

definition one_scalar :: scalar where "one_scalar = Int64 1"

fun uminus_scalar :: "scalar \<Rightarrow> scalar" where
  "uminus_scalar (Int64 w) = Int64 (- w)"
| "uminus_scalar (Float64 a) = Float64 (- a)"

fun plus_scalar :: "scalar \<Rightarrow> scalar \<Rightarrow> scalar" where
  "plus_scalar (Int64 v) (Int64 w) = Int64 (v + w)"
| "plus_scalar a b = Float64 (to_fl a + to_fl b)"

fun minus_scalar :: "scalar \<Rightarrow> scalar \<Rightarrow> scalar" where
  "minus_scalar (Int64 v) (Int64 w) = Int64 (v - w)"
| "minus_scalar a b = Float64 (to_fl a - to_fl b)"

fun times_scalar :: "scalar \<Rightarrow> scalar \<Rightarrow> scalar" where
  "times_scalar (Int64 v) (Int64 w) = Int64 (v * w)"
| "times_scalar a b = Float64 (to_fl a * to_fl b)"

definition divide_scalar :: "scalar \<Rightarrow> scalar \<Rightarrow> scalar" where
  "divide_scalar a b = Float64 (to_fl a / to_fl b)"

definition inverse_scalar :: "scalar \<Rightarrow> scalar" where
  "inverse_scalar a = Float64 (inverse (to_fl a))"

fun abs_scalar :: "scalar \<Rightarrow> scalar" where
  "abs_scalar (Int64 w) = Int64 (if sint w < 0 then - w else w)"
| "abs_scalar (Float64 a) = Float64 \<bar>a\<bar>"

instance ..

end

section \<open>numpy arrays\<close>

text \<open>
  A one-dimensional array is a list. A two-dimensional array is the list of its rows with
  the number of columns beside it, so that an array with no row still has a shape.
\<close>

record 'a ndarray =
  ncols :: nat
  rws :: "'a list list"

text \<open>Python's \<open>sum\<close> starts from 0 and adds from the left.\<close>

definition py_sum :: "'a list \<Rightarrow> 'a::{zero,plus}" where
  "py_sum xs = foldl (+) 0 xs"

definition dot :: "'a list \<Rightarrow> 'a list \<Rightarrow> 'a::{zero,plus,times}" where
  "dot u v = py_sum (map2 (*) u v)"

definition col :: "'a ndarray \<Rightarrow> nat \<Rightarrow> 'a list" where
  "col A j = map (\<lambda>r. r ! j) (rws A)"

text \<open>\<open>A.T\<close>\<close>

definition np_T :: "'a ndarray \<Rightarrow> 'a ndarray" where
  "np_T A = \<lparr>ncols = length (rws A), rws = map (col A) [0..<ncols A]\<rparr>"

text \<open>
  \<open>A @ B\<close>: ValueError unless the inner dimensions agree. The products and their sum
  are those of the element type: exact at \<^typ>\<open>real\<close>, modulo \<open>2^64\<close> on two
  arrays of int64 at \<open>scalar\<close>, as numpy computes them.
\<close>

definition mm :: "'a ndarray \<Rightarrow> 'a ndarray \<Rightarrow> ('a::{zero,plus,times}) ndarray" where
  "mm A B = \<lparr>ncols = ncols B,
             rws = map (\<lambda>r. map (\<lambda>j. dot r (col B j)) [0..<ncols B]) (rws A)\<rparr>"

definition matmul :: "'a ndarray \<Rightarrow> 'a ndarray \<Rightarrow> error + ('a::{zero,plus,times}) ndarray" where
  "matmul A B = (if ncols A \<noteq> length (rws B) then Inl ValueError else Inr (mm A B))"

text \<open>\<open>A - B\<close> for two arrays of one shape (the only case the source forms).\<close>

definition mdiff :: "'a ndarray \<Rightarrow> 'a ndarray \<Rightarrow> ('a::minus) ndarray" where
  "mdiff A B = \<lparr>ncols = ncols A, rws = map2 (map2 (-)) (rws A) (rws B)\<rparr>"

definition msub :: "'a ndarray \<Rightarrow> 'a ndarray \<Rightarrow> error + ('a::minus) ndarray" where
  "msub A B =
     (if ncols A \<noteq> ncols B \<or> length (rws A) \<noteq> length (rws B) then Inl ValueError
      else Inr (mdiff A B))"

text \<open>\<open>c * A\<close> and \<open>A / c\<close> for a scalar \<open>c\<close>.\<close>

definition smul :: "'a \<Rightarrow> 'a ndarray \<Rightarrow> ('a::times) ndarray" where
  "smul c A = \<lparr>ncols = ncols A, rws = map (map (\<lambda>a. c * a)) (rws A)\<rparr>"

definition sdiv :: "'a ndarray \<Rightarrow> 'a \<Rightarrow> ('a::inverse) ndarray" where
  "sdiv A c = \<lparr>ncols = ncols A, rws = map (map (\<lambda>a. a / c)) (rws A)\<rparr>"

text \<open>\<open>np.diag(A)\<close> of a two-dimensional array.\<close>

definition np_diag :: "'a ndarray \<Rightarrow> 'a list" where
  "np_diag A = map (\<lambda>i. rws A ! i ! i) [0..<min (length (rws A)) (ncols A)]"

text \<open>\<open>A[0]\<close> and \<open>A[0][0]\<close>\<close>

definition first_row :: "'a ndarray \<Rightarrow> error + 'a list" where
  "first_row A = (case rws A of [] \<Rightarrow> Inl IndexError | r # _ \<Rightarrow> Inr r)"

definition item00 :: "'a ndarray \<Rightarrow> error + 'a" where
  "item00 A = (case rws A of (v # _) # _ \<Rightarrow> Inr v | _ \<Rightarrow> Inl IndexError)"

text \<open>
  \<open>u / v\<close> for two one-dimensional arrays, with numpy's broadcasting of an array of
  length one.
\<close>

definition np_divide :: "'a list \<Rightarrow> 'a list \<Rightarrow> error + ('a::inverse) list" where
  "np_divide u v =
     (if length u = length v then Inr (map2 (/) u v)
      else if length v = 1 then Inr (map (\<lambda>a. a / hd v) u)
      else if length u = 1 then Inr (map (\<lambda>b. hd u / b) v)
      else Inl ValueError)"

definition wf_array :: "nat \<Rightarrow> nat \<Rightarrow> 'a ndarray \<Rightarrow> bool" where
  "wf_array n k A = (length (rws A) = n \<and> ncols A = k \<and> list_all (\<lambda>r. length r = k) (rws A))"

section \<open>pandas objects and the store\<close>

text \<open>
  A DataFrame is its column labels and its rows, a Series its name and its values; both
  carry the default index \<open>0..n-1\<close>, as the caller's do in the notebook. The caller's
  table and response, and the frames and the list the constructor builds, are objects in a
  store: the model object refers to them by address, so that an assignment that only
  aliases (\<open>self.y = y\<close>) and a method that changes an object in place
  (\<open>x_list.append\<close>) are what they are in Python.
\<close>

record 'a frame =
  columns :: "string list"
  rows :: "'a list list"

record 'a series =
  sname :: string
  svalues :: "'a list"

datatype 'a obj = DataFrame "'a frame" | Series "'a series" | PyList "string list"

type_synonym 'a store = "'a obj list"

definition lookup :: "'a store \<Rightarrow> nat \<Rightarrow> 'a obj option" where
  "lookup s a = (if a < length s then Some (s ! a) else None)"

definition alloc :: "'a store \<Rightarrow> 'a obj \<Rightarrow> 'a store \<times> nat" where
  "alloc s ob = (s @ [ob], length s)"

definition get_frame :: "'a store \<Rightarrow> nat \<Rightarrow> error + 'a frame" where
  "get_frame s a = (case lookup s a of Some (DataFrame f) \<Rightarrow> Inr f | _ \<Rightarrow> Inl AttributeError)"

definition get_list :: "'a store \<Rightarrow> nat \<Rightarrow> error + string list" where
  "get_list s a = (case lookup s a of Some (PyList l) \<Rightarrow> Inr l | _ \<Rightarrow> Inl AttributeError)"

text \<open>\<open>np.array(frame)\<close>, \<open>pd.DataFrame(series)\<close>, \<open>np.array(frame).ravel()\<close>,
  \<open>np.mean(frame)\<close> and \<open>pd.concat([f, g], axis=1)\<close> of two frames of equal height.
  The array of a frame has the cells of the frame: the dtype of a table whose columns
  have one dtype is kept, int64 included (a table that mixes int64 and float64 columns,
  which numpy would convert to float64 as a whole, is not used at \<open>scalar\<close>).\<close>

definition np_array :: "'a frame \<Rightarrow> 'a ndarray" where
  "np_array f = \<lparr>ncols = length (columns f), rws = rows f\<rparr>"

definition frame_of_series :: "'a series \<Rightarrow> 'a frame" where
  "frame_of_series y = \<lparr>columns = [sname y], rows = map (\<lambda>v. [v]) (svalues y)\<rparr>"

definition ravel :: "'a frame \<Rightarrow> 'a list" where
  "ravel f = concat (rows f)"

definition np_mean :: "'a frame \<Rightarrow> 'a::{zero,one,plus,uminus,inverse}" where
  "np_mean f = py_sum (ravel f) / py_float (int (length (ravel f)))"

definition concat_axis1 :: "'a frame \<Rightarrow> 'a frame \<Rightarrow> 'a frame" where
  "concat_axis1 f g = \<lparr>columns = columns f @ columns g, rows = map2 (@) (rows f) (rows g)\<rparr>"

text \<open>
  The frame of ones \<open>add_intercept\<close> builds, and the table the constructor leaves in
  \<open>self.x\<close>: the caller's columns, then the column \<open>intercept\<close> when asked for.
\<close>

definition ones_frame :: "nat \<Rightarrow> ('a::one) frame" where
  "ones_frame n = \<lparr>columns = [''intercept''], rows = replicate n [1]\<rparr>"

definition design :: "('a::one) frame \<Rightarrow> bool \<Rightarrow> 'a frame" where
  "design fx create_intercept =
     (if create_intercept then concat_axis1 fx (ones_frame (length (rows fx))) else fx)"

definition wf_frame :: "'a frame \<Rightarrow> bool" where
  "wf_frame f = list_all (\<lambda>r. length r = length (columns f)) (rows f)"

section \<open>The numerical library\<close>

text \<open>
  What the class calls in numpy and scipy and does not define: \<open>np.exp\<close>,
  \<open>np.log\<close>, \<open>np.sqrt\<close>, \<open>np.linalg.inv\<close> (which raises LinAlgError on a
  singular matrix), \<open>scipy.optimize.minimize\<close> (of whose result the source reads the
  field \<open>x\<close> only), \<open>scipy.stats.t.sf\<close> and \<open>scipy.stats.norm.sf\<close>. They are
  parameters of the model.
\<close>

record 'a OptimizeResult =
  res_x :: "'a list"
  success :: bool

record 'a numlib =
  np_exp :: "'a \<Rightarrow> 'a"
  np_log :: "'a \<Rightarrow> 'a"
  np_sqrt :: "'a \<Rightarrow> 'a"
  linalg_inv :: "'a ndarray \<Rightarrow> error + 'a ndarray"
  minimize :: "('a list \<Rightarrow> 'a) \<Rightarrow> 'a list \<Rightarrow> 'a OptimizeResult"
  t_sf :: "'a \<Rightarrow> int \<Rightarrow> 'a"
  norm_sf :: "'a \<Rightarrow> 'a"

section \<open>The class RegressionModel\<close>

text \<open>
  The attributes of \<open>self\<close>. \<open>self.x\<close> and \<open>self.y\<close> are the fields
  \<open>self_x\<close> and \<open>self_y\<close>; they, \<open>y2\<close> and \<open>x_list\<close> are addresses in
  the store. An attribute that only a later method assigns is \<open>None\<close> until then.
  A result record is the dictionary of one variable, its keys in order; \<open>results\<close> is
  the dictionary of these by variable name, in insertion order.
\<close>

type_synonym 'a result_dict = "(string \<times> (string \<times> 'a) list) list"

record 'a RegressionModel =
  self_x :: nat
  self_y :: nat
  y2 :: nat
  num_obs :: nat
  num_vars :: nat
  regression_type :: string
  x_list :: nat
  y_label :: string
  x1 :: "'a ndarray option"
  y1 :: "'a ndarray option"
  Beta_hat_M :: "'a ndarray option"
  Beta_hat :: "'a list option"
  df :: "int option"
  stdError :: "'a list option"
  t_stat :: "'a list option"
  zScores :: "'a list option"
  p_val :: "'a list option"
  results :: "'a result_dict option"

subsection \<open>Construction\<close>

text \<open>
  \<open>add_intercept\<close>: appends \<open>'intercept'\<close> to the list \<open>x_list\<close> in place,
  builds the frame of ones, and binds \<open>self.x\<close> to the new frame that \<open>pd.concat\<close>
  and then \<open>reset_index\<close> return.
\<close>

definition add_intercept ::
  "'a store \<Rightarrow> 'a RegressionModel \<Rightarrow> bool \<Rightarrow> error + ('a::one) store \<times> 'a RegressionModel" where
  "add_intercept s m create_intercept =
     (if create_intercept then
        bindE (get_list s (x_list m)) (\<lambda>l.
        let s1 = s[x_list m := PyList (l @ [''intercept''])];
            (s2, all_1) = alloc s1 (DataFrame (ones_frame (num_obs m)))
        in bindE (get_frame s2 (self_x m)) (\<lambda>f.
           bindE (get_frame s2 all_1) (\<lambda>g.
           let (s3, c) = alloc s2 (DataFrame (concat_axis1 f g));
               (s4, r) = alloc s3 (DataFrame (concat_axis1 f g))
           in Inr (s4, m\<lparr>self_x := r, num_vars := length (columns (concat_axis1 f g))\<rparr>))))
      else Inr (s, m))"

text \<open>
  \<open>__init__(self, x, y, create_intercept, regression_type)\<close>, with \<open>x\<close> and
  \<open>y\<close> the addresses of the caller's objects. \<open>x.shape\<close> wants a table and
  \<open>y.name\<close> a Series; the check of \<open>regression_type\<close> stands between the two.
\<close>

definition init ::
  "'a store \<Rightarrow> nat \<Rightarrow> nat \<Rightarrow> bool \<Rightarrow> string \<Rightarrow> error + ('a::one) store \<times> 'a RegressionModel" where
  "init s x y create_intercept rtype =
     (case lookup s x of
        Some (DataFrame fx) \<Rightarrow>
          let (s1, ax) = alloc s (DataFrame fx)
          in if rtype \<noteq> ''ols'' \<and> rtype \<noteq> ''logit'' then Inl RuntimeError
             else (case lookup s1 y of
               Some (Series sy) \<Rightarrow>
                 let (s2, ay2) = alloc s1 (DataFrame (frame_of_series sy));
                     (s3, al) = alloc s2 (PyList (columns fx));
                     m = \<lparr>self_x = ax, self_y = y, y2 = ay2,
                          num_obs = length (rows fx), num_vars = length (columns fx),
                          regression_type = rtype, x_list = al, y_label = sname sy,
                          x1 = None, y1 = None, Beta_hat_M = None, Beta_hat = None,
                          df = None, stdError = None, t_stat = None, zScores = None,
                          p_val = None, results = None\<rparr>
                 in bindE (add_intercept s3 m create_intercept) (\<lambda>(s4, m1).
                    bindE (get_frame s4 (self_x m1)) (\<lambda>f.
                    bindE (get_frame s4 (y2 m1)) (\<lambda>g.
                    Inr (s4, m1\<lparr>x1 := Some (np_array f), y1 := Some (np_array g)\<rparr>))))
             | _ \<Rightarrow> Inl AttributeError)
      | _ \<Rightarrow> Inl AttributeError)"

subsection \<open>Ordinary least squares\<close>

definition inver :: "'a numlib \<Rightarrow> 'a ndarray \<Rightarrow> error + 'a ndarray" where
  "inver L mat = linalg_inv L mat"

definition BetaHat ::
  "'a numlib \<Rightarrow> 'a RegressionModel \<Rightarrow> error + ('a::{zero,plus,times}) RegressionModel" where
  "BetaHat L m =
     bindE (attr (x1 m)) (\<lambda>X.
     bindE (matmul (np_T X) X) (\<lambda>xt_x.
     bindE (attr (y1 m)) (\<lambda>Y.
     bindE (matmul (np_T X) Y) (\<lambda>xt_y.
     bindE (inver L xt_x) (\<lambda>V.
     bindE (matmul V xt_y) (\<lambda>B.
     bindE (first_row (np_T B)) (\<lambda>b.
     Inr (m\<lparr>Beta_hat_M := Some B, Beta_hat := Some b\<rparr>))))))))"

text \<open>
  \<open>chat2\<close> assigns \<open>self.df = n - k\<close> and returns the 1 x 1 product of the
  residuals, divided by \<open>df\<close>, as a float.
\<close>

definition chat2 ::
  "'a RegressionModel \<Rightarrow>
     error + ('a::{zero,one,plus,minus,uminus,times,inverse}) RegressionModel \<times> 'a" where
  "chat2 m =
     bindE (attr (x1 m)) (\<lambda>X.
     let n = length (rws X); k = ncols X;
         m1 = m\<lparr>df := Some (int n - int k)\<rparr>
     in bindE (attr (y1 m1)) (\<lambda>Y.
        bindE (attr (Beta_hat_M m1)) (\<lambda>B.
        bindE (matmul X B) (\<lambda>XB.
        bindE (msub Y XB) (\<lambda>R.
        bindE (matmul (np_T R) R) (\<lambda>RtR.
        bindE (attr (df m1)) (\<lambda>d.
        bindE (item00 (sdiv RtR (py_float d))) (\<lambda>v.
        Inr (m1, v)))))))))"

definition varianceOfBeta_hat ::
  "'a numlib \<Rightarrow> 'a RegressionModel \<Rightarrow>
     error + ('a::{zero,one,plus,minus,uminus,times,inverse}) RegressionModel \<times> 'a list" where
  "varianceOfBeta_hat L m =
     bindE (chat2 m) (\<lambda>(m1, c).
     bindE (attr (x1 m1)) (\<lambda>X.
     bindE (matmul (np_T X) X) (\<lambda>xt_x.
     bindE (inver L xt_x) (\<lambda>V.
     Inr (m1, np_diag (smul c V))))))"

definition std_error ::
  "'a numlib \<Rightarrow> 'a RegressionModel \<Rightarrow>
     error + ('a::{zero,one,plus,minus,uminus,times,inverse}) RegressionModel" where
  "std_error L m =
     bindE (varianceOfBeta_hat L m) (\<lambda>(m1, v).
     Inr (m1\<lparr>stdError := Some (map (np_sqrt L) v)\<rparr>))"

definition t_statistic :: "'a RegressionModel \<Rightarrow> error + ('a::inverse) RegressionModel" where
  "t_statistic m =
     bindE (attr (Beta_hat m)) (\<lambda>b.
     bindE (attr (stdError m)) (\<lambda>se.
     Inr (m\<lparr>t_stat := Some (map (\<lambda>(Bj, Oj). Bj / Oj) (zip b se))\<rparr>)))"

definition p_value :: "'a numlib \<Rightarrow> 'a RegressionModel \<Rightarrow> error + 'a RegressionModel" where
  "p_value L m =
     bindE (attr (t_stat m)) (\<lambda>ts.
     bindE (attr (df m)) (\<lambda>d.
     Inr (m\<lparr>p_val := Some (map (\<lambda>t. t_sf L t d) ts)\<rparr>)))"

text \<open>
  A dictionary filled one key after the other: a key that is there keeps its place and
  takes the new value. \<open>resultToDict\<close> goes through a DataFrame of the five aligned
  columns, which pandas refuses with ValueError unless they have one length.
\<close>

definition result_row ::
  "string \<Rightarrow> 'a list \<Rightarrow> 'a list \<Rightarrow> 'a list \<Rightarrow> 'a list \<Rightarrow> nat \<Rightarrow> (string \<times> 'a) list" where
  "result_row stat b se ts pv i =
     [(''coefficient'', b ! i), (''standard_error'', se ! i), (stat, ts ! i), (''p_value'', pv ! i)]"

definition dict_of_columns ::
  "string \<Rightarrow> string list \<Rightarrow> 'a list \<Rightarrow> 'a list \<Rightarrow> 'a list \<Rightarrow> 'a list \<Rightarrow> 'a result_dict" where
  "dict_of_columns stat names b se ts pv =
     foldl (\<lambda>d i. AList.update (names ! i) (result_row stat b se ts pv i) d)
           [] [0..<length names]"

definition resultToDict ::
  "'a store \<Rightarrow> 'a RegressionModel \<Rightarrow> error + 'a RegressionModel" where
  "resultToDict s m =
     bindE (get_list s (x_list m)) (\<lambda>names.
     bindE (attr (Beta_hat m)) (\<lambda>b.
     bindE (attr (stdError m)) (\<lambda>se.
     bindE (attr (t_stat m)) (\<lambda>ts.
     bindE (attr (p_val m)) (\<lambda>pv.
     if length b = length names \<and> length se = length names \<and>
        length ts = length names \<and> length pv = length names
     then Inr (m\<lparr>results := Some (dict_of_columns ''t_stat'' names b se ts pv)\<rparr>)
     else Inl ValueError)))))"

definition ols_regression ::
  "'a numlib \<Rightarrow> 'a store \<Rightarrow> 'a RegressionModel \<Rightarrow>
     error + ('a::{zero,one,plus,minus,uminus,times,inverse}) RegressionModel" where
  "ols_regression L s m =
     bindE (BetaHat L m) (\<lambda>m1.
     bindE (varianceOfBeta_hat L m1) (\<lambda>(m2, _).
     bindE (std_error L m2) (\<lambda>m3.
     bindE (t_statistic m3) (\<lambda>m4.
     bindE (p_value L m4) (\<lambda>m5.
     resultToDict s m5)))))"

subsection \<open>Logistic regression\<close>

text \<open>
  The objective \<open>loglike(b, y, x)\<close>, with \<open>y\<close> and \<open>x\<close> the frames
  \<open>self.y2\<close> and \<open>self.x\<close>. scipy calls it on vectors of the shape of the initial
  guess.
\<close>

definition loglike ::
  "'a numlib \<Rightarrow> 'a list \<Rightarrow> 'a frame \<Rightarrow> ('a::{zero,one,plus,minus,uminus,times,inverse}) frame \<Rightarrow> 'a" where
  "loglike L b y x =
     (let gamma = map (\<lambda>r. np_exp L (dot r b) / (1 + np_exp L (dot r b))) (rows x);
          ll = - 1 * py_sum (map (\<lambda>(yi, gi). yi * np_log L gi + (1 - yi) * np_log L (1 - gi))
                                 (zip (ravel y) gamma))
      in ll)"

text \<open>The loop \<open>for i, name in enumerate(variable_names)\<close> over the dictionary
  \<open>self.results\<close>; an index beyond one of the four arrays raises IndexError.\<close>

fun fill_results ::
  "'a list \<Rightarrow> 'a list \<Rightarrow> 'a list \<Rightarrow> 'a list \<Rightarrow> 'a result_dict \<Rightarrow> (nat \<times> string) list \<Rightarrow>
     error + 'a result_dict" where
  "fill_results b se z pv d [] = Inr d"
| "fill_results b se z pv d ((i, name) # rest) =
     (if i < length b \<and> i < length se \<and> i < length z \<and> i < length pv
      then fill_results b se z pv
             (AList.update name (result_row ''z_stat'' b se z pv i) d) rest
      else Inl IndexError)"

definition logistic_regression ::
  "'a numlib \<Rightarrow> 'a store \<Rightarrow> 'a RegressionModel \<Rightarrow>
     error + ('a::{zero,one,plus,minus,uminus,times,inverse,abs}) RegressionModel" where
  "logistic_regression L s m =
     (let b = replicate (num_vars m) (py_float 1 / py_float 10)
      in bindE (get_frame s (y2 m)) (\<lambda>y.
         bindE (get_frame s (self_x m)) (\<lambda>x.
         let betas = res_x (minimize L (\<lambda>b. loglike L b y x) b);
             m1 = m\<lparr>Beta_hat := Some betas\<rparr>;
             shat2 = py_float (int (num_obs m1)) * np_mean y * (1 - np_mean y)
         in bindE (matmul (np_T (np_array x)) (np_array x)) (\<lambda>xt_x.
            bindE (linalg_inv L xt_x) (\<lambda>V.
            let cov = smul shat2 V;
                m2 = m1\<lparr>stdError := Some (map (np_sqrt L) (np_diag cov))\<rparr>
            in bindE (np_divide betas (map (np_sqrt L) (np_diag cov))) (\<lambda>z.
               let m3 = m2\<lparr>zScores := Some z\<rparr>;
                   pv = map (\<lambda>a. norm_sf L \<bar>a\<bar> * py_float 2) z;
                   m4 = m3\<lparr>p_val := Some pv\<rparr>
               in bindE (fill_results betas (map (np_sqrt L) (np_diag cov)) z pv []
                           (zip [0..<length (columns x)] (columns x))) (\<lambda>d.
                  Inr (m4\<lparr>results := Some d\<rparr>))))))))"

subsection \<open>Fitting\<close>

text \<open>
  \<open>fit_model\<close> dispatches on \<open>regression_type\<close>. No method changes an object of the
  store: each one only assigns attributes of \<open>self\<close>, so the store comes back as it
  went in.
\<close>

definition fit_model ::
  "'a numlib \<Rightarrow> 'a store \<Rightarrow> 'a RegressionModel \<Rightarrow>
     error + 'a store \<times> ('a::{zero,one,plus,minus,uminus,times,inverse,abs}) RegressionModel" where
  "fit_model L s m =
     (if regression_type m = ''ols'' then bindE (ols_regression L s m) (\<lambda>m1. Inr (s, m1))
      else if regression_type m = ''logit'' then
        bindE (logistic_regression L s m) (\<lambda>m1. Inr (s, m1))
      else Inr (s, m))"

text \<open>Calling \<open>fit_model\<close> \<open>n\<close> times in a row on one model object.\<close>

fun fit_times ::
  "'a numlib \<Rightarrow> nat \<Rightarrow> 'a store \<Rightarrow> 'a RegressionModel \<Rightarrow>
     error + 'a store \<times> ('a::{zero,one,plus,minus,uminus,times,inverse,abs}) RegressionModel" where
  "fit_times L 0 s m = Inr (s, m)"
| "fit_times L (Suc n) s m = bindE (fit_model L s m) (\<lambda>(s1, m1). fit_times L n s1 m1)"

section \<open>Notions the statements use\<close>

text \<open>
  The number \<open>chat2\<close> returns for the arrays \<open>X\<close>, \<open>Y\<close> and the coefficient
  column \<open>B\<close>; the matrix \<open>cov\<close> of \<open>logistic_regression\<close>; and what the
  constructor leaves behind: a model whose frames, list and arrays hold the table \<open>X\<close>
  and the response \<open>sy\<close>.
\<close>

definition resid_var ::
  "'a ndarray \<Rightarrow> 'a ndarray \<Rightarrow> 'a ndarray \<Rightarrow> ('a::{zero,one,plus,minus,uminus,times,inverse})" where
  "resid_var X Y B =
     dot (col (mdiff Y (mm X B)) 0) (col (mdiff Y (mm X B)) 0) /
       py_float (int (length (rws X)) - int (ncols X))"

definition logit_cov ::
  "'a RegressionModel \<Rightarrow> 'a frame \<Rightarrow> 'a ndarray \<Rightarrow>
     ('a::{zero,one,plus,minus,uminus,times,inverse}) ndarray" where
  "logit_cov m y V = smul (py_float (int (num_obs m)) * np_mean y * (1 - np_mean y)) V"

definition constructed ::
  "'a store \<Rightarrow> 'a RegressionModel \<Rightarrow> 'a frame \<Rightarrow> 'a series \<Rightarrow> string \<Rightarrow> bool" where
  "constructed s m X sy rtype =
     (get_frame s (self_x m) = Inr X \<and> get_frame s (y2 m) = Inr (frame_of_series sy) \<and>
      get_list s (x_list m) = Inr (columns X) \<and>
      x1 m = Some (np_array X) \<and> y1 m = Some (np_array (frame_of_series sy)) \<and>
      num_obs m = length (rows X) \<and> num_vars m = length (columns X) \<and>
      regression_type m = rtype)"

text \<open>
  The shapes under which \<open>ols_regression\<close> goes through, and the state it leaves, as
  one expression in the arrays \<open>X\<close>, \<open>Y\<close>, the inverse \<open>V\<close> the library
  returned and the list of names; likewise for \<open>logistic_regression\<close>, with \<open>z\<close>
  the array of the z-scores.
\<close>

definition ols_shapes :: "'a ndarray \<Rightarrow> 'a ndarray \<Rightarrow> 'a ndarray \<Rightarrow> string list \<Rightarrow> bool" where
  "ols_shapes X Y V names =
     (length (rws X) = length (rws Y) \<and> 0 < ncols Y \<and> ncols V = ncols X \<and>
      length (rws V) = ncols X \<and> length names = ncols X)"

definition ols_fitted ::
  "'a numlib \<Rightarrow> 'a RegressionModel \<Rightarrow> 'a ndarray \<Rightarrow> 'a ndarray \<Rightarrow> 'a ndarray \<Rightarrow> string list \<Rightarrow>
     ('a::{zero,one,plus,minus,uminus,times,inverse}) RegressionModel" where
  "ols_fitted L m X Y V names =
     (let B = mm V (mm (np_T X) Y);
          b = col B 0;
          d = int (length (rws X)) - int (ncols X);
          se = map (np_sqrt L) (np_diag (smul (resid_var X Y B) V));
          ts = map (\<lambda>(Bj, Oj). Bj / Oj) (zip b se);
          pv = map (\<lambda>t. t_sf L t d) ts
      in m\<lparr>Beta_hat_M := Some B, Beta_hat := Some b, df := Some d, stdError := Some se,
           t_stat := Some ts, p_val := Some pv,
           results := Some (dict_of_columns ''t_stat'' names b se ts pv)\<rparr>)"

definition logit_betas ::
  "'a numlib \<Rightarrow> 'a RegressionModel \<Rightarrow> 'a frame \<Rightarrow> 'a frame \<Rightarrow>
     ('a::{zero,one,plus,minus,uminus,times,inverse}) list" where
  "logit_betas L m y x =
     res_x (minimize L (\<lambda>b. loglike L b y x) (replicate (num_vars m) (py_float 1 / py_float 10)))"

definition logit_se ::
  "'a numlib \<Rightarrow> 'a RegressionModel \<Rightarrow> 'a frame \<Rightarrow> 'a ndarray \<Rightarrow>
     ('a::{zero,one,plus,minus,uminus,times,inverse}) list" where
  "logit_se L m y V = map (np_sqrt L) (np_diag (logit_cov m y V))"

definition logit_pv ::
  "'a numlib \<Rightarrow> 'a list \<Rightarrow> ('a::{zero,one,plus,uminus,times,abs}) list" where
  "logit_pv L z = map (\<lambda>a. norm_sf L \<bar>a\<bar> * py_float 2) z"

definition logit_fitted ::
  "'a numlib \<Rightarrow> 'a RegressionModel \<Rightarrow> 'a frame \<Rightarrow> 'a frame \<Rightarrow> 'a ndarray \<Rightarrow> 'a list \<Rightarrow>
     ('a::{zero,one,plus,minus,uminus,times,inverse,abs}) RegressionModel" where
  "logit_fitted L m y x V z =
     m\<lparr>Beta_hat := Some (logit_betas L m y x), stdError := Some (logit_se L m y V),
       zScores := Some z, p_val := Some (logit_pv L z),
       results := Some (dict_of_columns ''z_stat'' (columns x) (logit_betas L m y x)
                          (logit_se L m y V) z (logit_pv L z))\<rparr>"

text \<open>Two states of the model object that differ at most in what a fit assigns.\<close>

definition same_inputs :: "'a RegressionModel \<Rightarrow> 'a RegressionModel \<Rightarrow> bool" where
  "same_inputs m m' =
     (self_x m' = self_x m \<and> self_y m' = self_y m \<and> y2 m' = y2 m \<and> num_obs m' = num_obs m \<and>
      num_vars m' = num_vars m \<and> regression_type m' = regression_type m \<and>
      x_list m' = x_list m \<and> y_label m' = y_label m \<and> x1 m' = x1 m \<and> y1 m' = y1 m)"

section \<open>The formulas of the specification\<close>

text \<open>
  What the specification writes, in its own words, over the reals: the logistic function
  and the negative log-likelihood of a coefficient vector for the rows \<open>X\<close> and the
  responses \<open>y\<close>; the mean of the response; and the entries of \<open>X\<^sup>T X\<close>
  and of \<open>X\<^sup>T y\<close>. The code is compared with them below.
\<close>

definition spec_sigma :: "real \<Rightarrow> real" where
  "spec_sigma t = exp t / (1 + exp t)"

definition spec_NLL :: "real list list \<Rightarrow> real list \<Rightarrow> real list \<Rightarrow> real" where
  "spec_NLL X y \<beta> =
     - (\<Sum>i<length X. y ! i * ln (spec_sigma (\<Sum>j<length \<beta>. X ! i ! j * \<beta> ! j)) +
                       (1 - y ! i) * ln (1 - spec_sigma (\<Sum>j<length \<beta>. X ! i ! j * \<beta> ! j)))"

definition spec_mean :: "real list \<Rightarrow> real" where
  "spec_mean ys = (\<Sum>i<length ys. ys ! i) / real (length ys)"

definition spec_gram :: "real list list \<Rightarrow> nat \<Rightarrow> nat \<Rightarrow> real" where
  "spec_gram X i j = (\<Sum>l<length X. X ! l ! i * X ! l ! j)"

definition spec_Xty :: "real list list \<Rightarrow> real list \<Rightarrow> nat \<Rightarrow> real" where
  "spec_Xty X y j = (\<Sum>l<length X. X ! l ! j * y ! l)"

section \<open>Small data sets and libraries to run them with\<close>

text \<open>
  Stand-ins for the library, for running the code on an example. The inverse of a matrix
  of order one or two by cofactors (larger ones do not occur below); a minimizer that
  gives up at once, returning its starting point and reporting no success; and the
  survival function of Student's t with one degree of freedom, \<open>1/2 - arctan t / pi\<close>.
  The normal survival function has no closed form, and where an example needs one the
  same function stands in: the statements use it as some function only.
\<close>

definition inv_upto2 ::
  "'a ndarray \<Rightarrow> error + ('a::{zero,one,minus,uminus,times,inverse}) ndarray" where
  "inv_upto2 A =
     (case rws A of
        [[a]] \<Rightarrow> if a = 0 then Inl LinAlgError else Inr \<lparr>ncols = 1, rws = [[1 / a]]\<rparr>
      | [[a, b], [c, d]] \<Rightarrow>
          (let det = a * d - b * c
           in if det = 0 then Inl LinAlgError
              else Inr \<lparr>ncols = 2, rws = [[d / det, - b / det], [- c / det, a / det]]\<rparr>)
      | _ \<Rightarrow> Inl LinAlgError)"

definition gives_up :: "('a list \<Rightarrow> 'a) \<Rightarrow> 'a list \<Rightarrow> 'a OptimizeResult" where
  "gives_up f b = \<lparr>res_x = b, success = False\<rparr>"

definition cauchy_sf :: "real \<Rightarrow> real" where
  "cauchy_sf t = 1 / 2 - arctan t / pi"

text \<open>
  On the reals: three observations of one regressor and a binary response, with the
  intercept. \<open>demo_built\<close> and \<open>demo_model\<close> are the store and the model object the
  constructor leaves, \<open>demo_inv\<close> the inverse of the 2 x 2 matrix \<open>X\<^sup>T X\<close>.
\<close>

definition demo_lib :: "real numlib" where
  "demo_lib = \<lparr>np_exp = exp, np_log = ln, np_sqrt = sqrt, linalg_inv = inv_upto2,
               minimize = gives_up, t_sf = (\<lambda>t d. cauchy_sf t), norm_sf = cauchy_sf\<rparr>"

definition demo_x :: "real frame" where
  "demo_x = \<lparr>columns = [''x''], rows = [[1], [2], [3]]\<rparr>"

definition demo_y :: "real series" where
  "demo_y = \<lparr>sname = ''y'', svalues = [0, 1, 1]\<rparr>"

definition demo_store :: "real store" where
  "demo_store = [DataFrame demo_x, Series demo_y]"

definition demo_built :: "real store" where
  "demo_built = demo_store @
     [DataFrame demo_x, DataFrame (frame_of_series demo_y), PyList [''x'', ''intercept''],
      DataFrame (ones_frame 3), DataFrame (design demo_x True), DataFrame (design demo_x True)]"

definition demo_model :: "string \<Rightarrow> real RegressionModel" where
  "demo_model rtype =
     \<lparr>self_x = 7, self_y = 1, y2 = 3, num_obs = 3, num_vars = 2, regression_type = rtype,
      x_list = 4, y_label = ''y'', x1 = Some (np_array (design demo_x True)),
      y1 = Some (np_array (frame_of_series demo_y)), Beta_hat_M = None, Beta_hat = None,
      df = None, stdError = None, t_stat = None, zScores = None, p_val = None,
      results = None\<rparr>"

definition demo_inv :: "real ndarray" where
  "demo_inv = \<lparr>ncols = 2, rws = [[1 / 2, - 1], [- 1, 7 / 3]]\<rparr>"

text \<open>
  On doubles: the library with \<open>fl_exp\<close>, \<open>fl_log\<close> and \<open>fl_sqrt\<close>, a
  minimizer to be chosen, and survival functions that are NaN at NaN (and, for Student's
  t, at a number of degrees of freedom that is not positive, as scipy's is). The data are
  two observations of one regressor, without intercept.
\<close>

definition fl_sf :: "(real \<Rightarrow> real) \<Rightarrow> fl \<Rightarrow> fl" where
  "fl_sf f t = (case t of Fin a \<Rightarrow> Fin (f a) | PInf \<Rightarrow> Fin 0 | NInf \<Rightarrow> Fin 1 | NaN \<Rightarrow> NaN)"

definition fl_lib :: "((fl list \<Rightarrow> fl) \<Rightarrow> fl list \<Rightarrow> fl OptimizeResult) \<Rightarrow> fl numlib" where
  "fl_lib opt = \<lparr>np_exp = fl_exp, np_log = fl_log, np_sqrt = fl_sqrt, linalg_inv = inv_upto2,
                 minimize = opt,
                 t_sf = (\<lambda>t d. if d \<le> 0 then NaN else fl_sf cauchy_sf t),
                 norm_sf = fl_sf cauchy_sf\<rparr>"

definition two_x :: "fl frame" where
  "two_x = \<lparr>columns = [''x''], rows = [[Fin 1], [Fin 2]]\<rparr>"

definition two_y :: "fl series" where
  "two_y = \<lparr>sname = ''y'', svalues = [Fin 0, Fin 1]\<rparr>"

definition two_store :: "fl store" where
  "two_store = [DataFrame two_x, Series two_y]"

definition two_built :: "fl store" where
  "two_built = two_store @ [DataFrame two_x, DataFrame (frame_of_series two_y), PyList [''x'']]"

definition two_model :: "string \<Rightarrow> fl RegressionModel" where
  "two_model rtype =
     \<lparr>self_x = 2, self_y = 1, y2 = 3, num_obs = 2, num_vars = 1, regression_type = rtype,
      x_list = 4, y_label = ''y'', x1 = Some (np_array two_x),
      y1 = Some (np_array (frame_of_series two_y)), Beta_hat_M = None, Beta_hat = None,
      df = None, stdError = None, t_stat = None, zScores = None, p_val = None,
      results = None\<rparr>"

text \<open>
  A minimizer that diverges: it reports no success and returns NaN in every coordinate.
  And one observation of one regressor, where the table has as many columns as rows.
\<close>

definition diverges :: "(fl list \<Rightarrow> fl) \<Rightarrow> fl list \<Rightarrow> fl OptimizeResult" where
  "diverges f b = \<lparr>res_x = map (\<lambda>_. NaN) b, success = False\<rparr>"

definition one_x :: "fl frame" where
  "one_x = \<lparr>columns = [''x''], rows = [[Fin 2]]\<rparr>"

definition one_y :: "fl series" where
  "one_y = \<lparr>sname = ''y'', svalues = [Fin 3]\<rparr>"

definition one_store :: "fl store" where
  "one_store = [DataFrame one_x, Series one_y]"

definition one_built :: "fl store" where
  "one_built = one_store @ [DataFrame one_x, DataFrame (frame_of_series one_y), PyList [''x'']]"

definition one_model :: "string \<Rightarrow> fl RegressionModel" where
  "one_model rtype =
     \<lparr>self_x = 2, self_y = 1, y2 = 3, num_obs = 1, num_vars = 1, regression_type = rtype,
      x_list = 4, y_label = ''y'', x1 = Some (np_array one_x),
      y1 = Some (np_array (frame_of_series one_y)), Beta_hat_M = None, Beta_hat = None,
      df = None, stdError = None, t_stat = None, zScores = None, p_val = None,
      results = None\<rparr>"

text \<open>
  With dtypes: numpy and scipy convert an integer argument to float64 and return float64,
  so the library on \<open>scalar\<close> is the library on doubles behind that conversion. The
  table has one int64 column with twice the value \<open>3037000500\<close>, whose square is
  above \<open>2^63\<close>; the response is the int64 column 0, 1; there is no intercept.
\<close>

definition astype :: "('a \<Rightarrow> 'b) \<Rightarrow> 'a ndarray \<Rightarrow> 'b ndarray" where
  "astype f A = \<lparr>ncols = ncols A, rws = map (map f) (rws A)\<rparr>"

definition scalar_lib :: "fl numlib \<Rightarrow> scalar numlib" where
  "scalar_lib L =
     \<lparr>np_exp = (\<lambda>a. Float64 (np_exp L (to_fl a))),
      np_log = (\<lambda>a. Float64 (np_log L (to_fl a))),
      np_sqrt = (\<lambda>a. Float64 (np_sqrt L (to_fl a))),
      linalg_inv = (\<lambda>A. bindE (linalg_inv L (astype to_fl A)) (\<lambda>V. Inr (astype Float64 V))),
      minimize = (\<lambda>f b.
         \<lparr>res_x = map Float64 (res_x (minimize L (\<lambda>v. to_fl (f (map Float64 v))) (map to_fl b))),
          success = success (minimize L (\<lambda>v. to_fl (f (map Float64 v))) (map to_fl b))\<rparr>),
      t_sf = (\<lambda>a d. Float64 (t_sf L (to_fl a) d)),
      norm_sf = (\<lambda>a. Float64 (norm_sf L (to_fl a)))\<rparr>"

definition big_x :: "scalar frame" where
  "big_x = \<lparr>columns = [''x''], rows = [[Int64 3037000500], [Int64 3037000500]]\<rparr>"

definition big_y :: "scalar series" where
  "big_y = \<lparr>sname = ''y'', svalues = [Int64 0, Int64 1]\<rparr>"

definition big_store :: "scalar store" where
  "big_store = [DataFrame big_x, Series big_y]"

definition big_built :: "scalar store" where
  "big_built = big_store @ [DataFrame big_x, DataFrame (frame_of_series big_y), PyList [''x'']]"

definition big_model :: "string \<Rightarrow> scalar RegressionModel" where
  "big_model rtype =
     \<lparr>self_x = 2, self_y = 1, y2 = 3, num_obs = 2, num_vars = 1, regression_type = rtype,
      x_list = 4, y_label = ''y'', x1 = Some (np_array big_x),
      y1 = Some (np_array (frame_of_series big_y)), Beta_hat_M = None, Beta_hat = None,
      df = None, stdError = None, t_stat = None, zScores = None, p_val = None,
      results = None\<rparr>"

text \<open>The library with the minimizer's convergence flag forced to \<open>c\<close>.\<close>

definition with_flag :: "bool \<Rightarrow> 'a numlib \<Rightarrow> 'a numlib" where
  "with_flag c L = L\<lparr>minimize := (\<lambda>f b. (minimize L f b)\<lparr>success := c\<rparr>)\<rparr>"

section \<open>Running the code: basic facts\<close>

lemma bindE_Inr [simp]: "bindE (Inr v) f = f v"
  by (simp add: bindE_def)

lemma bindE_Inl [simp]: "bindE (Inl e) f = Inl e"
  by (simp add: bindE_def)

lemma bindE_eq_Inr: "bindE r f = Inr w \<longleftrightarrow> (\<exists>v. r = Inr v \<and> f v = Inr w)"
  by (cases r) auto

lemma attr_simps [simp]: "attr None = Inl AttributeError" "attr (Some a) = Inr a"
  by (simp_all add: attr_def)

lemma attr_eq_Inr: "attr v = Inr a \<longleftrightarrow> v = Some a"
  by (cases v) auto

lemma length_col [simp]: "length (col A j) = length (rws A)"
  by (simp add: col_def)

lemma np_T_shape [simp]: "ncols (np_T A) = length (rws A)" "length (rws (np_T A)) = ncols A"
  by (simp_all add: np_T_def)

lemma mm_shape [simp]: "ncols (mm A B) = ncols B" "length (rws (mm A B)) = length (rws A)"
  by (simp_all add: mm_def)

lemma mdiff_shape [simp]: "ncols (mdiff A B) = ncols A"
  "length (rws (mdiff A B)) = min (length (rws A)) (length (rws B))"
  by (simp_all add: mdiff_def)

lemma smul_shape [simp]: "ncols (smul c A) = ncols A" "length (rws (smul c A)) = length (rws A)"
  by (simp_all add: smul_def)

lemma length_np_diag [simp]: "length (np_diag A) = min (length (rws A)) (ncols A)"
  by (simp add: np_diag_def)

lemma matmul_eq_Inr: "matmul A B = Inr C \<longleftrightarrow> ncols A = length (rws B) \<and> C = mm A B"
  by (auto simp: matmul_def)

lemma msub_eq_Inr:
  "msub A B = Inr C \<longleftrightarrow> ncols A = ncols B \<and> length (rws A) = length (rws B) \<and> C = mdiff A B"
  by (auto simp: msub_def)

lemma first_row_T_iff: "first_row (np_T B) = Inr r \<longleftrightarrow> 0 < ncols B \<and> r = col B 0"
proof (cases "ncols B")
  case 0
  then show ?thesis by (simp add: first_row_def np_T_def)
next
  case (Suc n)
  then have u: "[0..<ncols B] = 0 # [Suc 0..<ncols B]" "0 < ncols B"
    by (simp_all add: upt_conv_Cons del: upt_Suc)
  show ?thesis
    unfolding first_row_def np_T_def by (auto simp: u simp del: upt_Suc)
qed

lemma item00_gram_iff:
  "item00 (sdiv (mm (np_T R) R) c) = Inr v \<longleftrightarrow> 0 < ncols R \<and> v = dot (col R 0) (col R 0) / c"
proof (cases "ncols R")
  case 0
  then show ?thesis by (simp add: item00_def sdiv_def mm_def np_T_def)
next
  case (Suc n)
  then have u: "[0..<ncols R] = 0 # [Suc 0..<ncols R]" "0 < ncols R"
    by (simp_all add: upt_conv_Cons del: upt_Suc)
  show ?thesis
    unfolding item00_def sdiv_def mm_def np_T_def by (auto simp: u simp del: upt_Suc)
qed

subsection \<open>The constructor\<close>

lemma init_True:
  assumes "lookup s x = Some (DataFrame fx)" "lookup s y = Some (Series sy)"
    "rt = ''ols'' \<or> rt = ''logit''"
  shows "init s x y True rt = Inr
    (s @ [DataFrame fx, DataFrame (frame_of_series sy), PyList (columns fx @ [''intercept'']),
          DataFrame (ones_frame (length (rows fx))), DataFrame (design fx True),
          DataFrame (design fx True)],
     \<lparr>self_x = length s + 5, self_y = y, y2 = length s + 1,
      num_obs = length (rows fx), num_vars = length (columns fx) + 1,
      regression_type = rt, x_list = length s + 2, y_label = sname sy,
      x1 = Some (np_array (design fx True)), y1 = Some (np_array (frame_of_series sy)),
      Beta_hat_M = None, Beta_hat = None, df = None, stdError = None, t_stat = None,
      zScores = None, p_val = None, results = None\<rparr>)"
proof -
  have "y < length s"
    using assms(2) by (simp add: lookup_def split: if_splits)
  then show ?thesis
    using assms
    by (auto simp: init_def alloc_def add_intercept_def get_list_def get_frame_def lookup_def
        nth_append design_def ones_frame_def concat_axis1_def Let_def)
qed

lemma init_False:
  assumes "lookup s x = Some (DataFrame fx)" "lookup s y = Some (Series sy)"
    "rt = ''ols'' \<or> rt = ''logit''"
  shows "init s x y False rt = Inr
    (s @ [DataFrame fx, DataFrame (frame_of_series sy), PyList (columns fx)],
     \<lparr>self_x = length s, self_y = y, y2 = length s + 1,
      num_obs = length (rows fx), num_vars = length (columns fx),
      regression_type = rt, x_list = length s + 2, y_label = sname sy,
      x1 = Some (np_array fx), y1 = Some (np_array (frame_of_series sy)),
      Beta_hat_M = None, Beta_hat = None, df = None, stdError = None, t_stat = None,
      zScores = None, p_val = None, results = None\<rparr>)"
proof -
  have "y < length s"
    using assms(2) by (simp add: lookup_def split: if_splits)
  then show ?thesis
    using assms
    by (auto simp: init_def alloc_def add_intercept_def get_list_def get_frame_def lookup_def
        nth_append Let_def)
qed

lemma init_InrD:
  assumes "init s x y ci rt = Inr (s1, m)"
  shows "\<exists>fx sy. lookup s x = Some (DataFrame fx) \<and> lookup s y = Some (Series sy) \<and>
                 (rt = ''ols'' \<or> rt = ''logit'')"
  using assms
  by (auto simp: init_def alloc_def Let_def lookup_def nth_append
      split: option.splits obj.splits if_splits)

lemma length_rows_design [simp]: "length (rows (design fx ci)) = length (rows fx)"
  by (simp add: design_def concat_axis1_def ones_frame_def)

lemma columns_design:
  "columns (design fx ci) = columns fx @ (if ci then [''intercept''] else [])"
  by (simp add: design_def concat_axis1_def ones_frame_def)

lemma init_constructed:
  assumes "lookup s x = Some (DataFrame fx)" "lookup s y = Some (Series sy)"
    "rt = ''ols'' \<or> rt = ''logit''"
  shows "\<exists>s1 m. init s x y ci rt = Inr (s1, m) \<and> constructed s1 m (design fx ci) sy rt \<and>
           take (length s) s1 = s \<and> length s \<le> self_x m \<and> length s \<le> y2 m \<and>
           length s \<le> x_list m \<and> self_y m = y"
proof (cases ci)
  case True
  define s1 where "s1 = s @ [DataFrame fx, DataFrame (frame_of_series sy),
          PyList (columns fx @ [''intercept'']),
          DataFrame (ones_frame (length (rows fx))), DataFrame (design fx True),
          DataFrame (design fx True)]"
  define m where "m = \<lparr>self_x = length s + 5, self_y = y, y2 = length s + 1,
      num_obs = length (rows fx), num_vars = length (columns fx) + 1,
      regression_type = rt, x_list = length s + 2, y_label = sname sy,
      x1 = Some (np_array (design fx True)), y1 = Some (np_array (frame_of_series sy)),
      Beta_hat_M = None, Beta_hat = None, df = None, stdError = None, t_stat = None,
      zScores = None, p_val = None, results = (None :: 'a result_dict option)\<rparr>"
  have "init s x y ci rt = Inr (s1, m)"
    using True init_True[OF assms] by (simp add: s1_def m_def)
  moreover have "constructed s1 m (design fx ci) sy rt"
    by (simp add: True s1_def m_def constructed_def get_frame_def get_list_def lookup_def
        nth_append columns_design)
  moreover have "take (length s) s1 = s" "length s \<le> self_x m" "length s \<le> y2 m"
    "length s \<le> x_list m" "self_y m = y"
    by (simp_all add: s1_def m_def)
  ultimately show ?thesis
    by blast
next
  case False
  define s1 where "s1 = s @ [DataFrame fx, DataFrame (frame_of_series sy), PyList (columns fx)]"
  define m where "m = \<lparr>self_x = length s, self_y = y, y2 = length s + 1,
      num_obs = length (rows fx), num_vars = length (columns fx),
      regression_type = rt, x_list = length s + 2, y_label = sname sy,
      x1 = Some (np_array fx), y1 = Some (np_array (frame_of_series sy)),
      Beta_hat_M = None, Beta_hat = None, df = None, stdError = None, t_stat = None,
      zScores = None, p_val = None, results = (None :: 'a result_dict option)\<rparr>"
  have "init s x y ci rt = Inr (s1, m)"
    using False init_False[OF assms] by (simp add: s1_def m_def)
  moreover have "constructed s1 m (design fx ci) sy rt"
    by (simp add: False s1_def m_def constructed_def get_frame_def get_list_def lookup_def
        nth_append design_def)
  moreover have "take (length s) s1 = s" "length s \<le> self_x m" "length s \<le> y2 m"
    "length s \<le> x_list m" "self_y m = y"
    by (simp_all add: s1_def m_def)
  ultimately show ?thesis
    by blast
qed

subsection \<open>Ordinary least squares, step by step\<close>

lemma BetaHat_iff:
  "BetaHat L m = Inr m' \<longleftrightarrow>
     (\<exists>X Y V. x1 m = Some X \<and> y1 m = Some Y \<and> linalg_inv L (mm (np_T X) X) = Inr V \<and>
        length (rws X) = length (rws Y) \<and> ncols V = ncols X \<and> 0 < ncols Y \<and>
        m' = m\<lparr>Beta_hat_M := Some (mm V (mm (np_T X) Y)),
               Beta_hat := Some (col (mm V (mm (np_T X) Y)) 0)\<rparr>)"
  by (auto simp: BetaHat_def bindE_eq_Inr attr_eq_Inr matmul_eq_Inr inver_def first_row_T_iff)

lemma chat2_iff:
  "chat2 m = Inr (m', c) \<longleftrightarrow>
     (\<exists>X Y B. x1 m = Some X \<and> y1 m = Some Y \<and> Beta_hat_M m = Some B \<and>
        ncols X = length (rws B) \<and> ncols Y = ncols B \<and> length (rws Y) = length (rws X) \<and>
        0 < ncols Y \<and>
        m' = m\<lparr>df := Some (int (length (rws X)) - int (ncols X))\<rparr> \<and> c = resid_var X Y B)"
  by (auto simp: chat2_def bindE_eq_Inr attr_eq_Inr matmul_eq_Inr msub_eq_Inr Let_def
      item00_gram_iff resid_var_def)

lemma varianceOfBeta_hat_iff:
  "varianceOfBeta_hat L m = Inr (m', v) \<longleftrightarrow>
     (\<exists>X Y B V. x1 m = Some X \<and> y1 m = Some Y \<and> Beta_hat_M m = Some B \<and>
        linalg_inv L (mm (np_T X) X) = Inr V \<and>
        ncols X = length (rws B) \<and> ncols Y = ncols B \<and> length (rws Y) = length (rws X) \<and>
        0 < ncols Y \<and>
        m' = m\<lparr>df := Some (int (length (rws X)) - int (ncols X))\<rparr> \<and>
        v = np_diag (smul (resid_var X Y B) V))"
  by (auto simp: varianceOfBeta_hat_def bindE_eq_Inr attr_eq_Inr matmul_eq_Inr inver_def chat2_iff)

lemma std_error_iff:
  "std_error L m = Inr m' \<longleftrightarrow>
     (\<exists>X Y B V. x1 m = Some X \<and> y1 m = Some Y \<and> Beta_hat_M m = Some B \<and>
        linalg_inv L (mm (np_T X) X) = Inr V \<and>
        ncols X = length (rws B) \<and> ncols Y = ncols B \<and> length (rws Y) = length (rws X) \<and>
        0 < ncols Y \<and>
        m' = m\<lparr>df := Some (int (length (rws X)) - int (ncols X)),
               stdError := Some (map (np_sqrt L) (np_diag (smul (resid_var X Y B) V)))\<rparr>)"
  by (auto simp: std_error_def bindE_eq_Inr varianceOfBeta_hat_iff)

lemma t_statistic_iff:
  "t_statistic m = Inr m' \<longleftrightarrow>
     (\<exists>b se. Beta_hat m = Some b \<and> stdError m = Some se \<and>
        m' = m\<lparr>t_stat := Some (map (\<lambda>(Bj, Oj). Bj / Oj) (zip b se))\<rparr>)"
  by (auto simp: t_statistic_def bindE_eq_Inr attr_eq_Inr)

lemma p_value_iff:
  "p_value L m = Inr m' \<longleftrightarrow>
     (\<exists>ts d. t_stat m = Some ts \<and> df m = Some d \<and>
        m' = m\<lparr>p_val := Some (map (\<lambda>t. t_sf L t d) ts)\<rparr>)"
  by (auto simp: p_value_def bindE_eq_Inr attr_eq_Inr)

lemma resultToDict_iff:
  "resultToDict s m = Inr m' \<longleftrightarrow>
     (\<exists>names b se ts pv. get_list s (x_list m) = Inr names \<and> Beta_hat m = Some b \<and>
           stdError m = Some se \<and> t_stat m = Some ts \<and> p_val m = Some pv \<and>
           length b = length names \<and> length se = length names \<and> length ts = length names \<and>
           length pv = length names \<and>
           m' = m\<lparr>results := Some (dict_of_columns ''t_stat'' names b se ts pv)\<rparr>)"
  by (auto simp: resultToDict_def bindE_eq_Inr attr_eq_Inr split: if_splits)

lemma ols_regression_Inr:
  assumes X: "x1 m = Some X" and Y: "y1 m = Some Y"
    and inv: "linalg_inv L (mm (np_T X) X) = Inr V"
    and names: "get_list s (x_list m) = Inr names"
    and sh: "ols_shapes X Y V names"
  shows "ols_regression L s m = Inr (ols_fitted L m X Y V names)"
proof -
  define B where "B = mm V (mm (np_T X) Y)"
  define d where "d = int (length (rws X)) - int (ncols X)"
  define se where "se = map (np_sqrt L) (np_diag (smul (resid_var X Y B) V))"
  define ts where "ts = map (\<lambda>(Bj, Oj). Bj / Oj) (zip (col B 0) se)"
  define m1 where "m1 = m\<lparr>Beta_hat_M := Some B, Beta_hat := Some (col B 0)\<rparr>"
  define m2 where "m2 = m1\<lparr>df := Some d\<rparr>"
  define m3 where "m3 = m2\<lparr>stdError := Some se\<rparr>"
  define m4 where "m4 = m3\<lparr>t_stat := Some ts\<rparr>"
  define m5 where "m5 = m4\<lparr>p_val := Some (map (\<lambda>t. t_sf L t d) ts)\<rparr>"
  have s1: "BetaHat L m = Inr m1"
    unfolding BetaHat_iff m1_def B_def using X Y inv sh by (simp add: ols_shapes_def)
  have s2: "varianceOfBeta_hat L m1 = Inr (m2, np_diag (smul (resid_var X Y B) V))"
    unfolding varianceOfBeta_hat_iff m2_def d_def
    using X Y inv sh by (simp add: m1_def ols_shapes_def B_def)
  have s3: "std_error L m2 = Inr m3"
    unfolding std_error_iff m3_def se_def
    using X Y inv sh by (simp add: m1_def m2_def ols_shapes_def B_def d_def)
  have s4: "t_statistic m3 = Inr m4"
    unfolding t_statistic_iff by (simp add: m4_def m3_def m2_def m1_def ts_def)
  have s5: "p_value L m4 = Inr m5"
    unfolding p_value_iff by (simp add: m5_def m4_def m3_def m2_def m1_def)
  have s6: "resultToDict s m5 = Inr (ols_fitted L m X Y V names)"
    unfolding resultToDict_iff
    using names sh
    by (simp add: ols_fitted_def Let_def m5_def m4_def m3_def m2_def m1_def B_def[symmetric]
        d_def[symmetric] se_def[symmetric] ts_def[symmetric])
       (simp add: B_def se_def ts_def ols_shapes_def)
  show ?thesis
    by (simp add: ols_regression_def s1 s2 s3 s4 s5 s6)
qed

lemma ols_regression_InrD:
  assumes "ols_regression L s m = Inr m'"
  shows "\<exists>X Y V names. x1 m = Some X \<and> y1 m = Some Y \<and> linalg_inv L (mm (np_T X) X) = Inr V \<and>
        get_list s (x_list m) = Inr names \<and> ols_shapes X Y V names \<and>
        m' = ols_fitted L m X Y V names"
proof -
  from assms obtain m1 m2 v m3 m4 m5 where st:
    "BetaHat L m = Inr m1" "varianceOfBeta_hat L m1 = Inr (m2, v)" "std_error L m2 = Inr m3"
    "t_statistic m3 = Inr m4" "p_value L m4 = Inr m5" "resultToDict s m5 = Inr m'"
    by (auto simp: ols_regression_def bindE_eq_Inr)
  from st(1) obtain X Y V where b: "x1 m = Some X" "y1 m = Some Y"
    "linalg_inv L (mm (np_T X) X) = Inr V" "length (rws X) = length (rws Y)" "ncols V = ncols X"
    "0 < ncols Y"
    and m1: "m1 = m\<lparr>Beta_hat_M := Some (mm V (mm (np_T X) Y)),
               Beta_hat := Some (col (mm V (mm (np_T X) Y)) 0)\<rparr>"
    unfolding BetaHat_iff by blast
  define B where "B = mm V (mm (np_T X) Y)"
  from st(2) b have c: "ncols X = length (rws V)"
    and m2: "m2 = m1\<lparr>df := Some (int (length (rws X)) - int (ncols X))\<rparr>"
    unfolding varianceOfBeta_hat_iff m1 by auto
  from st(3) b have m3: "m3 = m2\<lparr>stdError := Some (map (np_sqrt L) (np_diag (smul (resid_var X Y B) V)))\<rparr>"
    unfolding std_error_iff m2 m1 B_def by auto
  from st(4) have m4: "m4 = m3\<lparr>t_stat := Some (map (\<lambda>(Bj, Oj). Bj / Oj)
      (zip (col B 0) (map (np_sqrt L) (np_diag (smul (resid_var X Y B) V)))))\<rparr>"
    unfolding t_statistic_iff m3 m2 m1 B_def by auto
  from st(5) have m5: "m5 = m4\<lparr>p_val := Some (map (\<lambda>t. t_sf L t (int (length (rws X)) - int (ncols X)))
       (map (\<lambda>(Bj, Oj). Bj / Oj)
      (zip (col B 0) (map (np_sqrt L) (np_diag (smul (resid_var X Y B) V))))))\<rparr>"
    unfolding p_value_iff m4 m3 m2 m1 B_def by auto
  from st(6) obtain names where n: "get_list s (x_list m) = Inr names" "length (col B 0) = length names"
    and m': "m' = m5\<lparr>results := Some (dict_of_columns ''t_stat'' names (col B 0)
       (map (np_sqrt L) (np_diag (smul (resid_var X Y B) V)))
       (map (\<lambda>(Bj, Oj). Bj / Oj)
      (zip (col B 0) (map (np_sqrt L) (np_diag (smul (resid_var X Y B) V)))))
       (map (\<lambda>t. t_sf L t (int (length (rws X)) - int (ncols X)))
       (map (\<lambda>(Bj, Oj). Bj / Oj)
      (zip (col B 0) (map (np_sqrt L) (np_diag (smul (resid_var X Y B) V)))))))\<rparr>"
    unfolding resultToDict_iff m5 m4 m3 m2 m1 B_def by auto
  have "ols_shapes X Y V names"
    using b c n by (simp add: ols_shapes_def B_def)
  moreover have "m' = ols_fitted L m X Y V names"
    unfolding m' m5 m4 m3 m2 m1 by (simp add: ols_fitted_def Let_def B_def)
  ultimately show ?thesis
    using b n by blast
qed

subsection \<open>The results dictionary\<close>

lemma fill_results_iff:
  "fill_results b se z pv d xs = Inr d' \<longleftrightarrow>
     (\<forall>p \<in> set xs. fst p < length b \<and> fst p < length se \<and> fst p < length z \<and>
                      fst p < length pv) \<and>
     d' = foldl (\<lambda>d p. AList.update (snd p) (result_row ''z_stat'' b se z pv (fst p)) d) d xs"
proof (induction xs arbitrary: d)
  case Nil
  show ?case by auto
next
  case (Cons p xs)
  obtain i name where p: "p = (i, name)"
    by (cases p)
  show ?case
  proof (cases "i < length b \<and> i < length se \<and> i < length z \<and> i < length pv")
    case True
    then show ?thesis
      unfolding p using Cons.IH[of "AList.update name (result_row ''z_stat'' b se z pv i) d"]
      by simp
  next
    case False
    then show ?thesis
      unfolding p by auto
  qed
qed

lemma zip_upt_nth: "zip [0..<length xs] xs = map (\<lambda>i. (i, xs ! i)) [0..<length xs]"
  by (rule nth_equalityI) auto

lemma all_below_iff: "(\<forall>i < k. i < n) \<longleftrightarrow> k \<le> (n::nat)"
proof
  assume a: "\<forall>i < k. i < n"
  show "k \<le> n"
  proof (cases k)
    case 0
    then show ?thesis by simp
  next
    case (Suc j)
    with a have "j < n" by simp
    with Suc show ?thesis by simp
  qed
qed auto

lemma fill_results_enumerate_iff:
  "fill_results b se z pv [] (zip [0..<length names] names) = Inr d \<longleftrightarrow>
     length names \<le> length b \<and> length names \<le> length se \<and> length names \<le> length z \<and>
     length names \<le> length pv \<and> d = dict_of_columns ''z_stat'' names b se z pv"
proof -
  have "(\<forall>p \<in> set (map (\<lambda>i. (i, names ! i)) [0..<length names]).
           fst p < length b \<and> fst p < length se \<and> fst p < length z \<and> fst p < length pv) \<longleftrightarrow>
        (\<forall>i < length names. i < length b) \<and> (\<forall>i < length names. i < length se) \<and>
        (\<forall>i < length names. i < length z) \<and> (\<forall>i < length names. i < length pv)"
    by auto
  then show ?thesis
    unfolding fill_results_iff zip_upt_nth all_below_iff
    by (auto simp: dict_of_columns_def foldl_map)
qed

lemma update_fresh: "k \<notin> fst ` set al \<Longrightarrow> AList.update k v al = al @ [(k, v)]"
  by (induction al) auto

lemma foldl_update_distinct:
  assumes "distinct names" "n \<le> length names"
  shows "foldl (\<lambda>d i. AList.update (names ! i) (f i) d) [] [0..<n] =
         map (\<lambda>i. (names ! i, f i)) [0..<n]"
  using assms(2)
proof (induction n)
  case 0
  then show ?case by simp
next
  case (Suc n)
  have "names ! n \<notin> fst ` set (map (\<lambda>i. (names ! i, f i)) [0..<n])"
    using Suc.prems assms(1) by (auto simp: nth_eq_iff_index_eq)
  then show ?case
    using Suc by (simp add: update_fresh)
qed

lemma dict_of_columns_distinct:
  assumes "distinct names"
  shows "dict_of_columns stat names b se ts pv =
     map (\<lambda>i. (names ! i, result_row stat b se ts pv i)) [0..<length names]"
  unfolding dict_of_columns_def
  by (rule foldl_update_distinct[OF assms order_refl])

lemma map_of_enumerated:
  assumes "distinct names" "i < length names"
  shows "map_of (map (\<lambda>i. (names ! i, f i)) [0..<length names]) (names ! i) = Some (f i)"
proof -
  have "distinct (map fst (map (\<lambda>i. (names ! i, f i)) [0..<length names]))"
    using assms(1) by (simp add: comp_def map_nth)
  moreover have "(names ! i, f i) \<in> set (map (\<lambda>i. (names ! i, f i)) [0..<length names])"
    using assms(2) by auto
  ultimately show ?thesis
    by (rule map_of_is_SomeI)
qed

lemma dict_of_columns_lookup:
  fixes stat names b se ts pv
  defines "res \<equiv> dict_of_columns stat names b se ts pv"
  assumes "distinct names"
  shows "map fst res = names \<and> length res = length names \<and>
         (\<forall>i < length res. map_of res (map fst res ! i) = Some (result_row stat b se ts pv i))"
  unfolding res_def dict_of_columns_distinct[OF assms(2)]
  by (simp add: comp_def map_nth map_of_enumerated[OF assms(2)])

subsection \<open>Logistic regression, step by step\<close>

lemma np_divide_same: "length u = length v \<Longrightarrow> np_divide u v = Inr (map2 (/) u v)"
  by (simp add: np_divide_def)

lemma logistic_regression_iff:
  "logistic_regression L s m = Inr m' \<longleftrightarrow>
     (\<exists>y x V z. get_frame s (y2 m) = Inr y \<and> get_frame s (self_x m) = Inr x \<and>
        linalg_inv L (mm (np_T (np_array x)) (np_array x)) = Inr V \<and>
        np_divide (logit_betas L m y x) (logit_se L m y V) = Inr z \<and>
        length (columns x) \<le> length (logit_betas L m y x) \<and>
        length (columns x) \<le> length (logit_se L m y V) \<and>
        length (columns x) \<le> length z \<and>
        m' = logit_fitted L m y x V z)"
  unfolding logistic_regression_def Let_def bindE_eq_Inr matmul_eq_Inr
    fill_results_enumerate_iff
  by (auto simp: logit_fitted_def logit_betas_def logit_se_def logit_pv_def logit_cov_def)

lemma logistic_regression_Inr:
  assumes "get_frame s (y2 m) = Inr y" "get_frame s (self_x m) = Inr x"
    "linalg_inv L (mm (np_T (np_array x)) (np_array x)) = Inr V"
    "np_divide (logit_betas L m y x) (logit_se L m y V) = Inr z"
    "length (columns x) \<le> length (logit_betas L m y x)"
    "length (columns x) \<le> length (logit_se L m y V)"
    "length (columns x) \<le> length z"
  shows "logistic_regression L s m = Inr (logit_fitted L m y x V z)"
  unfolding logistic_regression_iff using assms by blast

subsection \<open>What a fit writes\<close>

lemma same_inputs_refl [simp]: "same_inputs m m"
  by (simp add: same_inputs_def)

lemma same_inputs_trans: "same_inputs a b \<Longrightarrow> same_inputs b c \<Longrightarrow> same_inputs a c"
  by (simp add: same_inputs_def)

lemma same_inputs_ols_fitted [simp]: "same_inputs m (ols_fitted L m X Y V names)"
  by (simp add: same_inputs_def ols_fitted_def Let_def)

lemma same_inputs_logit_fitted [simp]: "same_inputs m (logit_fitted L m y x V z)"
  by (simp add: same_inputs_def logit_fitted_def)

lemma ols_regression_inputs: "ols_regression L s m = Inr m' \<Longrightarrow> same_inputs m m'"
  by (auto dest!: ols_regression_InrD)

lemma logistic_regression_inputs: "logistic_regression L s m = Inr m' \<Longrightarrow> same_inputs m m'"
  by (auto simp: logistic_regression_iff)

lemma fit_model_inputs: "fit_model L s m = Inr (s', m') \<Longrightarrow> s' = s \<and> same_inputs m m'"
  by (auto simp: fit_model_def bindE_eq_Inr split: if_splits
      dest: ols_regression_inputs logistic_regression_inputs)

lemma fit_times_inputs: "fit_times L n s m = Inr (s', m') \<Longrightarrow> s' = s \<and> same_inputs m m'"
proof (induction n arbitrary: s m)
  case 0
  then show ?case by simp
next
  case (Suc n)
  then obtain s1 m1 where a: "fit_model L s m = Inr (s1, m1)"
    and b: "fit_times L n s1 m1 = Inr (s', m')"
    by (auto simp: bindE_eq_Inr)
  from Suc.IH[OF b] fit_model_inputs[OF a] show ?case
    by (auto intro: same_inputs_trans)
qed

lemma constructed_same_inputs:
  "constructed s m X sy rt \<Longrightarrow> same_inputs m m' \<Longrightarrow> constructed s m' X sy rt"
  by (simp add: constructed_def same_inputs_def)

subsection \<open>Fitting again, and fitting the same data\<close>

lemma ols_fitted_fields [simp]:
  "x1 (ols_fitted L m X Y V names) = x1 m" "y1 (ols_fitted L m X Y V names) = y1 m"
  "x_list (ols_fitted L m X Y V names) = x_list m"
  "regression_type (ols_fitted L m X Y V names) = regression_type m"
  by (simp_all add: ols_fitted_def Let_def)

lemma ols_fitted_idem:
  "ols_fitted L (ols_fitted L m X Y V names) X Y V names = ols_fitted L m X Y V names"
  by (simp add: ols_fitted_def Let_def)

lemma logit_fitted_fields [simp]:
  "y2 (logit_fitted L m y x V z) = y2 m" "self_x (logit_fitted L m y x V z) = self_x m"
  "num_vars (logit_fitted L m y x V z) = num_vars m" "num_obs (logit_fitted L m y x V z) = num_obs m"
  "regression_type (logit_fitted L m y x V z) = regression_type m"
  by (simp_all add: logit_fitted_def)

lemma logit_betas_cong:
  "num_vars m' = num_vars m \<Longrightarrow> logit_betas L m' y x = logit_betas L m y x"
  by (simp add: logit_betas_def)

lemma logit_se_cong:
  "num_obs m' = num_obs m \<Longrightarrow> logit_se L m' y V = logit_se L m y V"
  by (simp add: logit_se_def logit_cov_def)

lemma logit_fitted_idem:
  "logit_fitted L (logit_fitted L m y x V z) y x V z = logit_fitted L m y x V z"
  by (simp add: logit_fitted_def logit_betas_def logit_se_def logit_cov_def)

lemma fit_model_refit:
  assumes "fit_model L s m = Inr (s', m')"
  shows "fit_model L s' m' = Inr (s', m')"
proof -
  from fit_model_inputs[OF assms] have s: "s' = s" and rt: "regression_type m' = regression_type m"
    by (simp_all add: same_inputs_def)
  consider (ols) "regression_type m = ''ols''" | (logit) "regression_type m = ''logit''"
    | (none) "regression_type m \<noteq> ''ols''" "regression_type m \<noteq> ''logit''"
    by blast
  then show ?thesis
  proof cases
    case ols
    with assms have "ols_regression L s m = Inr m'"
      by (auto simp: fit_model_def bindE_eq_Inr)
    from ols_regression_InrD[OF this] obtain X Y V names where
      f: "x1 m = Some X" "y1 m = Some Y" "linalg_inv L (mm (np_T X) X) = Inr V"
      "get_list s (x_list m) = Inr names" "ols_shapes X Y V names"
      and m': "m' = ols_fitted L m X Y V names"
      by blast
    have "ols_regression L s m' = Inr (ols_fitted L m' X Y V names)"
      by (rule ols_regression_Inr) (simp_all add: m' f)
    then show ?thesis
      using ols rt by (simp add: fit_model_def s m' ols_fitted_idem)
  next
    case logit
    with assms have r: "logistic_regression L s m = Inr m'"
      by (auto simp: fit_model_def bindE_eq_Inr)
    then obtain y x V z where
      f: "get_frame s (y2 m) = Inr y" "get_frame s (self_x m) = Inr x"
        "linalg_inv L (mm (np_T (np_array x)) (np_array x)) = Inr V"
        "np_divide (logit_betas L m y x) (logit_se L m y V) = Inr z"
        "length (columns x) \<le> length (logit_betas L m y x)"
        "length (columns x) \<le> length (logit_se L m y V)"
        "length (columns x) \<le> length z"
      and m': "m' = logit_fitted L m y x V z"
      unfolding logistic_regression_iff by blast
    have e: "logit_betas L m' y x = logit_betas L m y x" "logit_se L m' y V = logit_se L m y V"
      by (simp_all add: m' logit_betas_def logit_se_def logit_cov_def)
    have g: "get_frame s (y2 m') = Inr y" "get_frame s (self_x m') = Inr x"
      using f by (simp_all add: m')
    have "logistic_regression L s m' = Inr (logit_fitted L m' y x V z)"
      by (rule logistic_regression_Inr) (simp_all add: e f g)
    then show ?thesis
      using logit rt by (simp add: fit_model_def s m' logit_fitted_idem)
  next
    case none
    with assms show ?thesis
      by (auto simp: fit_model_def)
  qed
qed

lemma fit_model_same_data:
  assumes c: "constructed s m X sy rt" and c': "constructed t m' X sy rt"
    and rt: "rt = ''ols'' \<or> rt = ''logit''"
    and fit: "fit_model L s m = Inr (s, r)"
  shows "\<exists>r'. fit_model L t m' = Inr (t, r') \<and> Beta_hat r' = Beta_hat r \<and>
           stdError r' = stdError r \<and> p_val r' = p_val r \<and> results r' = results r"
  using rt
proof
  assume ols: "rt = ''ols''"
  from c c' have f: "x1 m = Some (np_array X)" "y1 m = Some (np_array (frame_of_series sy))"
      "get_list s (x_list m) = Inr (columns X)" "regression_type m = ''ols''"
    and f': "x1 m' = Some (np_array X)" "y1 m' = Some (np_array (frame_of_series sy))"
      "get_list t (x_list m') = Inr (columns X)" "regression_type m' = ''ols''"
    by (simp_all add: constructed_def ols)
  from fit f(4) have "ols_regression L s m = Inr r"
    by (auto simp: fit_model_def bindE_eq_Inr)
  from ols_regression_InrD[OF this] f obtain V where
    v: "linalg_inv L (mm (np_T (np_array X)) (np_array X)) = Inr V"
      "ols_shapes (np_array X) (np_array (frame_of_series sy)) V (columns X)"
    and r: "r = ols_fitted L m (np_array X) (np_array (frame_of_series sy)) V (columns X)"
    by auto
  have "ols_regression L t m' =
      Inr (ols_fitted L m' (np_array X) (np_array (frame_of_series sy)) V (columns X))"
    by (rule ols_regression_Inr[OF f'(1,2) v(1) f'(3) v(2)])
  then show ?thesis
    using f'(4) by (simp add: fit_model_def r ols_fitted_def Let_def)
next
  assume logit: "rt = ''logit''"
  from c c' have f: "get_frame s (y2 m) = Inr (frame_of_series sy)" "get_frame s (self_x m) = Inr X"
      "regression_type m = ''logit''"
    and f': "get_frame t (y2 m') = Inr (frame_of_series sy)" "get_frame t (self_x m') = Inr X"
      "regression_type m' = ''logit''"
    and n: "num_vars m' = num_vars m" "num_obs m' = num_obs m"
    by (simp_all add: constructed_def logit)
  from fit f(3) have "logistic_regression L s m = Inr r"
    by (auto simp: fit_model_def bindE_eq_Inr)
  with f obtain V z where
    v: "linalg_inv L (mm (np_T (np_array X)) (np_array X)) = Inr V"
      "np_divide (logit_betas L m (frame_of_series sy) X) (logit_se L m (frame_of_series sy) V) = Inr z"
      "length (columns X) \<le> length (logit_betas L m (frame_of_series sy) X)"
      "length (columns X) \<le> length (logit_se L m (frame_of_series sy) V)"
      "length (columns X) \<le> length z"
    and r: "r = logit_fitted L m (frame_of_series sy) X V z"
    unfolding logistic_regression_iff by auto
  have "logistic_regression L t m' = Inr (logit_fitted L m' (frame_of_series sy) X V z)"
    by (rule logistic_regression_Inr)
       (simp_all add: f' v logit_betas_cong[OF n(1)] logit_se_cong[OF n(2)])
  then show ?thesis
    using f'(3) by (simp add: fit_model_def r logit_fitted_def logit_betas_cong[OF n(1)] logit_se_cong[OF n(2)])
qed

subsection \<open>Fitting a constructed model\<close>

lemma constructed_ols_shapes:
  assumes "length (svalues sy) = length (rows X)"
    and "wf_array (length (columns X)) (length (columns X)) V"
  shows "ols_shapes (np_array X) (np_array (frame_of_series sy)) V (columns X)"
  using assms by (simp add: ols_shapes_def np_array_def frame_of_series_def wf_array_def)

lemma fit_model_ols_Inr:
  fixes L :: "('a::{zero,one,plus,minus,uminus,times,inverse,abs}) numlib"
  assumes c: "constructed s m X sy ''ols''"
    and len: "length (svalues sy) = length (rows X)"
    and inv: "linalg_inv L (mm (np_T (np_array X)) (np_array X)) = Inr V"
    and wV: "wf_array (length (columns X)) (length (columns X)) V"
  shows "fit_model L s m =
           Inr (s, ols_fitted L m (np_array X) (np_array (frame_of_series sy)) V (columns X))"
proof -
  from c have f: "x1 m = Some (np_array X)" "y1 m = Some (np_array (frame_of_series sy))"
    "get_list s (x_list m) = Inr (columns X)" "regression_type m = ''ols''"
    by (simp_all add: constructed_def)
  from ols_regression_Inr[OF f(1,2) inv f(3) constructed_ols_shapes[OF len wV]] f(4)
  show ?thesis
    by (simp add: fit_model_def)
qed

lemma fit_times_ols_Inr:
  fixes L :: "('a::{zero,one,plus,minus,uminus,times,inverse,abs}) numlib"
  assumes c: "constructed s m X sy ''ols''"
    and len: "length (svalues sy) = length (rows X)"
    and inv: "linalg_inv L (mm (np_T (np_array X)) (np_array X)) = Inr V"
    and wV: "wf_array (length (columns X)) (length (columns X)) V"
  shows "\<exists>m'. fit_times L n s m = Inr (s, m')"
  using c
proof (induction n arbitrary: m)
  case 0
  then show ?case by simp
next
  case (Suc n)
  have a: "fit_model L s m =
      Inr (s, ols_fitted L m (np_array X) (np_array (frame_of_series sy)) V (columns X))"
    by (rule fit_model_ols_Inr[OF Suc.prems len inv wV])
  from Suc.IH[OF constructed_same_inputs[OF Suc.prems same_inputs_ols_fitted]] a show ?case
    by simp
qed

lemma fit_model_logit_Inr:
  fixes L :: "('a::{zero,one,plus,minus,uminus,times,inverse,abs}) numlib"
  assumes c: "constructed s m X sy ''logit''"
    and inv: "linalg_inv L (mm (np_T (np_array X)) (np_array X)) = Inr V"
    and wV: "wf_array (length (columns X)) (length (columns X)) V"
    and len: "length (logit_betas L m (frame_of_series sy) X) = length (columns X)"
  shows "fit_model L s m =
           Inr (s, logit_fitted L m (frame_of_series sy) X V
                     (map2 (/) (logit_betas L m (frame_of_series sy) X)
                               (logit_se L m (frame_of_series sy) V)))"
proof -
  from c have f: "get_frame s (y2 m) = Inr (frame_of_series sy)" "get_frame s (self_x m) = Inr X"
    "regression_type m = ''logit''"
    by (simp_all add: constructed_def)
  have l: "length (logit_se L m (frame_of_series sy) V) = length (columns X)"
    using wV by (simp add: logit_se_def logit_cov_def wf_array_def)
  have "logistic_regression L s m = Inr (logit_fitted L m (frame_of_series sy) X V
                     (map2 (/) (logit_betas L m (frame_of_series sy) X)
                               (logit_se L m (frame_of_series sy) V)))"
    unfolding logistic_regression_iff
    using f inv len l by (auto simp: np_divide_same)
  with f(3) show ?thesis
    by (simp add: fit_model_def)
qed

subsection \<open>The arithmetic at the reals\<close>

lemma foldl_plus_real: "foldl (+) a xs = a + sum_list (xs :: real list)"
  by (induction xs arbitrary: a) simp_all

lemma py_sum_real: "py_sum xs = sum_list (xs :: real list)"
  by (simp add: py_sum_def foldl_plus_real)

lemma sum_list_nth_lessThan: "sum_list xs = (\<Sum>i<length xs. (xs ! i :: real))"
  by (simp add: sum_list_sum_nth atLeast0LessThan)

lemma dot_real:
  assumes "length u = length v"
  shows "dot u v = (\<Sum>l<length v. u ! l * (v ! l :: real))"
  using assms by (simp add: dot_def py_sum_real sum_list_nth_lessThan)

lemma float_of_nat_real: "(float_of_nat n :: real) = real n"
  by (induction n) simp_all

lemma py_float_real: "(py_float i :: real) = of_int i"
  by (simp add: py_float_def float_of_nat_real)

lemma tenth_real: "(py_float 1 / py_float 10 :: real) = 1 / 10"
  by (simp add: py_float_real)

lemma ravel_frame_of_series [simp]: "ravel (frame_of_series sy) = svalues sy"
  by (simp add: ravel_def frame_of_series_def)

lemma wf_frame_design: "wf_frame fx \<Longrightarrow> wf_frame (design fx ci)"
  by (auto simp: wf_frame_def design_def concat_axis1_def ones_frame_def list_all_iff
      dest!: set_zip_leftD set_zip_rightD elim!: in_set_zipE)

lemma wf_frame_row: "wf_frame f \<Longrightarrow> i < length (rows f) \<Longrightarrow> length (rows f ! i) = length (columns f)"
  by (simp add: wf_frame_def list_all_length)

lemma loglike_is_spec_NLL:
  fixes L :: "real numlib"
  assumes "np_exp L = exp" "np_log L = ln" "wf_frame xf" "length ys = length (rows xf)"
    "ravel yf = ys" "length b = length (columns xf)"
  shows "loglike L b yf xf = spec_NLL (rows xf) ys b"
proof -
  let ?g = "\<lambda>r. exp (dot r b) / (1 + exp (dot r b))"
  let ?t = "\<lambda>(yi, gi). yi * ln gi + (1 - yi) * ln (1 - gi)"
  have n: "length (zip ys (map ?g (rows xf))) = length (rows xf)"
    using assms(4) by simp
  have d: "dot (rows xf ! i) b = (\<Sum>j<length b. rows xf ! i ! j * b ! j)" if "i < length (rows xf)" for i
    using wf_frame_row[OF assms(3) that] assms(6) by (simp add: dot_real)
  have "loglike L b yf xf = - sum_list (map ?t (zip ys (map ?g (rows xf))))"
    by (simp add: loglike_def assms(1,2,5) py_sum_real)
  also have "sum_list (map ?t (zip ys (map ?g (rows xf)))) =
      (\<Sum>i<length (rows xf). ?t (zip ys (map ?g (rows xf)) ! i))"
    by (simp add: sum_list_nth_lessThan n del: length_zip)
  also have "\<dots> = (\<Sum>i<length (rows xf). ys ! i * ln (spec_sigma (\<Sum>j<length b. rows xf ! i ! j * b ! j)) +
                       (1 - ys ! i) * ln (1 - spec_sigma (\<Sum>j<length b. rows xf ! i ! j * b ! j)))"
    using assms(4) by (intro sum.cong refl) (simp add: d spec_sigma_def)
  finally show ?thesis
    by (simp add: spec_NLL_def)
qed

lemma col_series [simp]: "col (np_array (frame_of_series sy)) 0 = svalues sy"
  by (simp add: col_def np_array_def frame_of_series_def comp_def)

subsection \<open>The small data sets\<close>

lemma demo_lookup:
  "lookup demo_store 0 = Some (DataFrame demo_x)" "lookup demo_store 1 = Some (Series demo_y)"
  by (simp_all add: demo_store_def lookup_def)

lemma demo_design:
  "design demo_x True = \<lparr>columns = [''x'', ''intercept''], rows = [[1, 1], [2, 1], [3, 1]]\<rparr>"
  by (simp add: design_def demo_x_def concat_axis1_def ones_frame_def eval_nat_numeral)

lemma demo_init:
  assumes "rt = ''ols'' \<or> rt = ''logit''"
  shows "init demo_store 0 1 True rt = Inr (demo_built, demo_model rt)"
  unfolding init_True[OF demo_lookup assms]
  by (simp add: demo_built_def demo_model_def demo_store_def demo_x_def demo_y_def
      eval_nat_numeral)

lemma demo_constructed:
  assumes "rt = ''ols'' \<or> rt = ''logit''"
  shows "constructed demo_built (demo_model rt) (design demo_x True) demo_y rt"
  using init_constructed[OF demo_lookup assms, of True] demo_init[OF assms]
  by simp

lemma demo_shapes:
  "length (svalues demo_y) = length (rows (design demo_x True))"
  "wf_array (length (columns (design demo_x True))) (length (columns (design demo_x True))) demo_inv"
  by (simp_all add: demo_design demo_y_def wf_array_def demo_inv_def)

lemma demo_gram:
  "mm (np_T (np_array (design demo_x True))) (np_array (design demo_x True)) =
     \<lparr>ncols = 2, rws = [[14, 6], [6, 3]]\<rparr>"
  by (simp add: demo_design mm_def np_T_def np_array_def col_def dot_def py_sum_def upt_rec
      eval_nat_numeral)

lemma demo_inverse:
  "linalg_inv demo_lib (mm (np_T (np_array (design demo_x True))) (np_array (design demo_x True)))
     = Inr demo_inv"
  by (simp add: demo_gram demo_lib_def inv_upto2_def demo_inv_def)

lemma demo_fit_ols:
  "fit_model demo_lib demo_built (demo_model ''ols'') =
     Inr (demo_built, ols_fitted demo_lib (demo_model ''ols'') (np_array (design demo_x True))
                        (np_array (frame_of_series demo_y)) demo_inv
                        (columns (design demo_x True)))"
  by (rule fit_model_ols_Inr[OF demo_constructed demo_shapes(1) demo_inverse demo_shapes(2)])
     simp

lemma dbl_ovf_gt: "1000000 < dbl_ovf"
  by (simp add: dbl_ovf_def)

lemma ovf_small [simp]: "\<bar>r\<bar> \<le> 1000000 \<Longrightarrow> ovf r = Fin r"
  using dbl_ovf_gt by (auto simp: ovf_def)

lemma float_of_nat_fl: "(float_of_nat n :: fl) = ovf (real n)"
proof (induction n)
  case 0
  show ?case by (simp add: zero_fl_def)
next
  case (Suc n)
  show ?case
  proof (cases "dbl_ovf \<le> real n")
    case True
    then show ?thesis
      using Suc by (simp add: ovf_def one_fl_def)
  next
    case False
    moreover have "0 < dbl_ovf" using dbl_ovf_gt by simp
    ultimately show ?thesis
      using Suc by (simp add: ovf_def one_fl_def add.commute)
  qed
qed

lemma py_float_fl_nat: "(py_float (int n) :: fl) = ovf (real n)"
  by (simp add: py_float_def float_of_nat_fl)

lemma tenth_fl: "(py_float 1 / py_float 10 :: fl) = Fin (1 / 10)"
proof -
  have "(py_float 1 :: fl) = Fin 1" using py_float_fl_nat[of 1] by simp
  moreover have "(py_float 10 :: fl) = Fin 10" using py_float_fl_nat[of 10] by simp
  ultimately show ?thesis by simp
qed

lemma two_gram: "mm (np_T (np_array two_x)) (np_array two_x) = \<lparr>ncols = 1, rws = [[Fin 5]]\<rparr>"
  by (simp add: two_x_def mm_def np_T_def np_array_def col_def dot_def py_sum_def zero_fl_def)

lemma two_inverse: "linalg_inv (fl_lib opt) (mm (np_T (np_array two_x)) (np_array two_x)) =
  Inr \<lparr>ncols = 1, rws = [[Fin (1 / 5)]]\<rparr>"
  by (simp add: two_gram fl_lib_def inv_upto2_def zero_fl_def one_fl_def)


lemma two_lookup:
  "lookup two_store 0 = Some (DataFrame two_x)" "lookup two_store 1 = Some (Series two_y)"
  by (simp_all add: two_store_def lookup_def)

lemma two_init:
  assumes "rt = ''ols'' \<or> rt = ''logit''"
  shows "init two_store 0 1 False rt = Inr (two_built, two_model rt)"
  unfolding init_False[OF two_lookup assms]
  by (simp add: two_built_def two_model_def two_store_def two_x_def two_y_def)

lemma two_constructed:
  assumes "rt = ''ols'' \<or> rt = ''logit''"
  shows "constructed two_built (two_model rt) two_x two_y rt"
  using init_constructed[OF two_lookup assms, of False] two_init[OF assms]
  by (simp add: design_def)

lemma one_lookup:
  "lookup one_store 0 = Some (DataFrame one_x)" "lookup one_store 1 = Some (Series one_y)"
  by (simp_all add: one_store_def lookup_def)

lemma one_init:
  assumes "rt = ''ols'' \<or> rt = ''logit''"
  shows "init one_store 0 1 False rt = Inr (one_built, one_model rt)"
  unfolding init_False[OF one_lookup assms]
  by (simp add: one_built_def one_model_def one_store_def one_x_def one_y_def)

lemma one_constructed:
  assumes "rt = ''ols'' \<or> rt = ''logit''"
  shows "constructed one_built (one_model rt) one_x one_y rt"
  using init_constructed[OF one_lookup assms, of False] one_init[OF assms]
  by (simp add: design_def)

lemma one_gram: "mm (np_T (np_array one_x)) (np_array one_x) = \<lparr>ncols = 1, rws = [[Fin 4]]\<rparr>"
  by (simp add: one_x_def mm_def np_T_def np_array_def col_def dot_def py_sum_def zero_fl_def)

lemma one_inverse: "linalg_inv (fl_lib opt) (mm (np_T (np_array one_x)) (np_array one_x)) =
  Inr \<lparr>ncols = 1, rws = [[Fin (1 / 4)]]\<rparr>"
  by (simp add: one_gram fl_lib_def inv_upto2_def zero_fl_def one_fl_def)

lemma py_float_0_fl: "(py_float 0 :: fl) = Fin 0"
  by (simp add: py_float_def zero_fl_def)

lemma two_mean: "np_mean (frame_of_series two_y) = Fin (1 / 2)"
  by (simp add: np_mean_def ravel_def frame_of_series_def two_y_def py_sum_def zero_fl_def
      py_float_fl_nat[of 2, simplified])

lemma two_se:
  "logit_se (fl_lib opt) (two_model ''logit'') (frame_of_series two_y)
     \<lparr>ncols = 1, rws = [[Fin (1 / 5)]]\<rparr> = [Fin (sqrt (1 / 10))]"
  by (simp add: logit_se_def logit_cov_def two_mean two_model_def py_float_fl_nat[of 2, simplified]
      one_fl_def minus_fl_def smul_def np_diag_def fl_lib_def)

lemma two_betas_diverges:
  "logit_betas (fl_lib diverges) (two_model ''logit'') (frame_of_series two_y) two_x = [NaN]"
  by (simp add: logit_betas_def fl_lib_def diverges_def two_model_def)

subsection \<open>Doubles: overflow and NaN\<close>

lemma exp_2000: "dbl_ovf \<le> exp (2000::real)"
proof -
  have "(2::real) \<le> exp 1"
    using exp_ge_add_one_self[of "1::real"] by simp
  then have "(2::real) ^ 2000 \<le> exp 1 ^ 2000"
    by (intro power_mono) simp_all
  also have "exp (1::real) ^ 2000 = exp 2000"
    using exp_of_nat_mult[of 2000 "1::real"] by simp
  finally have "(2::real) ^ 2000 \<le> exp 2000" .
  moreover have "dbl_ovf < (2::real) ^ 2000"
    by (simp add: dbl_ovf_def)
  ultimately show ?thesis by linarith
qed

lemma fl_exp_2000: "ovf (exp 2000) = PInf"
  using exp_2000 by (simp add: ovf_def)

lemma NaN_absorbs [simp]:
  "a + NaN = NaN" "NaN + a = NaN" "a * NaN = NaN" "NaN * a = NaN" "a - NaN = NaN"
  "NaN - a = NaN" "a / NaN = NaN" "NaN / a = NaN" "- NaN = NaN" "\<bar>NaN\<bar> = NaN"
  by (cases a; simp add: minus_fl_def)+

lemma foldl_plus_NaN: "foldl (+) NaN xs = (NaN :: fl)"
  by (induction xs) simp_all

lemma py_sum_NaN:
  assumes "NaN \<in> set xs"
  shows "py_sum xs = (NaN :: fl)"
proof -
  from assms obtain ys zs where "xs = ys @ NaN # zs"
    by (auto simp: in_set_conv_decomp)
  then show ?thesis
    by (simp add: py_sum_def foldl_plus_NaN)
qed

lemma div_zero_not_finite: "\<not> is_finite (a / Fin 0)"
  by (cases a) simp_all

lemma loglike_with_flag: "loglike (with_flag c L) = loglike L"
  by (intro ext) (simp add: loglike_def with_flag_def)

lemma logistic_regression_with_flag:
  "logistic_regression (with_flag c L) s m = logistic_regression L s m"
  unfolding logistic_regression_def loglike_with_flag
  by (simp add: with_flag_def)

lemma one_fitted:
  "ols_fitted (fl_lib gives_up) (one_model ''ols'') (np_array one_x)
       (np_array (frame_of_series one_y)) \<lparr>ncols = 1, rws = [[Fin (1 / 4)]]\<rparr> [''x''] =
     (one_model ''ols'')
       \<lparr>Beta_hat_M := Some \<lparr>ncols = 1, rws = [[Fin (3 / 2)]]\<rparr>, Beta_hat := Some [Fin (3 / 2)],
        df := Some 0, stdError := Some [NaN], t_stat := Some [NaN], p_val := Some [NaN],
        results := Some [(''x'', [(''coefficient'', Fin (3 / 2)), (''standard_error'', NaN),
                                  (''t_stat'', NaN), (''p_value'', NaN)])]\<rparr>"
proof -
  have B: "mm \<lparr>ncols = 1, rws = [[Fin (1 / 4)]]\<rparr>
        (mm (np_T (np_array one_x)) (np_array (frame_of_series one_y))) =
      \<lparr>ncols = 1, rws = [[Fin (3 / 2)]]\<rparr>"
    by (simp add: one_x_def one_y_def mm_def np_T_def np_array_def frame_of_series_def col_def
        dot_def py_sum_def zero_fl_def)
  have r: "resid_var (np_array one_x) (np_array (frame_of_series one_y))
       \<lparr>ncols = 1, rws = [[Fin (3 / 2)]]\<rparr> = NaN"
    by (simp add: resid_var_def one_x_def one_y_def mm_def mdiff_def np_array_def
        frame_of_series_def col_def dot_def py_sum_def zero_fl_def minus_fl_def py_float_0_fl)
  show ?thesis
    unfolding ols_fitted_def Let_def B r
    by (simp add: smul_def np_diag_def col_def fl_lib_def one_x_def np_array_def
        dict_of_columns_def result_row_def)
qed

subsection \<open>The data set on the reals, computed\<close>

lemma demo_wf: "wf_frame demo_x"
  by (simp add: wf_frame_def demo_x_def)

lemma demo_len: "length (svalues demo_y) = length (rows demo_x)"
  by (simp add: demo_x_def demo_y_def)

lemma demo_k: "length (columns (design demo_x True)) = 2" "length (rows demo_x) = 3"
  unfolding demo_design by (simp_all add: demo_x_def)

lemma demo_ols_values:
  "ols_fitted demo_lib (demo_model ''ols'') (np_array (design demo_x True))
       (np_array (frame_of_series demo_y)) demo_inv (columns (design demo_x True)) =
     (demo_model ''ols'')
       \<lparr>Beta_hat_M := Some \<lparr>ncols = 1, rws = [[1 / 2], [- 1 / 3]]\<rparr>,
        Beta_hat := Some [1 / 2, - 1 / 3], df := Some 1,
        stdError := Some [sqrt (1 / 12), sqrt (7 / 18)],
        t_stat := Some [1 / 2 / sqrt (1 / 12), - 1 / 3 / sqrt (7 / 18)],
        p_val := Some [cauchy_sf (1 / 2 / sqrt (1 / 12)), cauchy_sf (- 1 / 3 / sqrt (7 / 18))],
        results := Some
          [(''x'', [(''coefficient'', 1 / 2), (''standard_error'', sqrt (1 / 12)),
                    (''t_stat'', 1 / 2 / sqrt (1 / 12)),
                    (''p_value'', cauchy_sf (1 / 2 / sqrt (1 / 12)))]),
           (''intercept'', [(''coefficient'', - 1 / 3), (''standard_error'', sqrt (7 / 18)),
                    (''t_stat'', - 1 / 3 / sqrt (7 / 18)),
                    (''p_value'', cauchy_sf (- 1 / 3 / sqrt (7 / 18)))])]\<rparr>"
proof -
  have B: "mm demo_inv (mm (np_T (np_array (design demo_x True)))
        (np_array (frame_of_series demo_y))) = \<lparr>ncols = 1, rws = [[1 / 2], [- 1 / 3]]\<rparr>"
    by (simp add: demo_design demo_y_def demo_inv_def mm_def np_T_def np_array_def
        frame_of_series_def col_def dot_def py_sum_def upt_rec eval_nat_numeral)
  have r: "resid_var (np_array (design demo_x True)) (np_array (frame_of_series demo_y))
       \<lparr>ncols = 1, rws = [[1 / 2], [- 1 / 3]]\<rparr> = 1 / 6"
    by (simp add: resid_var_def demo_design demo_y_def mm_def mdiff_def np_array_def
        frame_of_series_def col_def dot_def py_sum_def py_float_real upt_rec eval_nat_numeral)
  have d: "np_diag (smul (1 / 6) demo_inv) = [1 / 12, 7 / 18]"
    by (simp add: np_diag_def smul_def demo_inv_def upt_rec eval_nat_numeral)
  have c: "columns (design demo_x True) = [''x'', ''intercept'']"
    by (simp add: demo_design)
  have n: "int (length (rws (np_array (design demo_x True)))) -
      int (ncols (np_array (design demo_x True))) = 1"
    by (simp add: np_array_def demo_design)
  show ?thesis
    unfolding ols_fitted_def Let_def B r d c n
    by (simp add: col_def demo_lib_def dict_of_columns_def result_row_def upt_rec
        eval_nat_numeral)
qed

lemma cauchy_sf_neg: "t < 0 \<Longrightarrow> 1 / 2 < cauchy_sf t"
proof -
  assume "t < 0"
  then have "arctan t < 0"
    by (simp add: arctan_less_zero_iff)
  then have "arctan t / pi < 0"
    by (simp add: divide_neg_pos)
  then show ?thesis
    unfolding cauchy_sf_def by linarith
qed

lemma demo_logit_betas:
  "logit_betas demo_lib (demo_model ''logit'') (frame_of_series demo_y) (design demo_x True) =
     [1 / 10, 1 / 10]"
  by (simp add: logit_betas_def demo_lib_def gives_up_def demo_model_def tenth_real
      eval_nat_numeral)

lemma demo_fit_logit:
  "fit_model demo_lib demo_built (demo_model ''logit'') =
     Inr (demo_built, logit_fitted demo_lib (demo_model ''logit'') (frame_of_series demo_y)
       (design demo_x True) demo_inv
       (map2 (/) (logit_betas demo_lib (demo_model ''logit'') (frame_of_series demo_y)
                    (design demo_x True))
                 (logit_se demo_lib (demo_model ''logit'') (frame_of_series demo_y) demo_inv)))"
proof -
  have c: "constructed demo_built (demo_model ''logit'') (design demo_x True) demo_y ''logit''"
    by (rule demo_constructed) simp
  have l: "length (logit_betas demo_lib (demo_model ''logit'') (frame_of_series demo_y)
      (design demo_x True)) = length (columns (design demo_x True))"
    unfolding demo_logit_betas by (simp add: demo_design)
  show ?thesis
    by (rule fit_model_logit_Inr[OF c demo_inverse demo_shapes(2) l])
qed

subsection \<open>A table of dtype int64\<close>

lemma big_lookup:
  "lookup big_store 0 = Some (DataFrame big_x)" "lookup big_store 1 = Some (Series big_y)"
  by (simp_all add: big_store_def lookup_def)

lemma big_init:
  assumes "rt = ''ols'' \<or> rt = ''logit''"
  shows "init big_store 0 1 False rt = Inr (big_built, big_model rt)"
  unfolding init_False[OF big_lookup assms]
  by (simp add: big_built_def big_model_def big_store_def big_x_def big_y_def)

lemma big_constructed:
  assumes "rt = ''ols'' \<or> rt = ''logit''"
  shows "constructed big_built (big_model rt) big_x big_y rt"
  using init_constructed[OF big_lookup assms, of False] big_init[OF assms]
  by (simp add: design_def)

lemma big_gram:
  "mm (np_T (np_array big_x)) (np_array big_x) = \<lparr>ncols = 1, rws = [[Int64 290948384]]\<rparr>"
  by (simp add: big_x_def mm_def np_T_def np_array_def col_def dot_def py_sum_def zero_scalar_def)

lemma ovf_below: "\<bar>r\<bar> \<le> 10 ^ 40 \<Longrightarrow> ovf r = Fin r"
proof -
  have "(10::real) ^ 40 < dbl_ovf"
    by (simp add: dbl_ovf_def)
  then show "\<bar>r\<bar> \<le> 10 ^ 40 \<Longrightarrow> ovf r = Fin r"
    by (auto simp: ovf_def)
qed

lemma big_inverse:
  "linalg_inv (scalar_lib (fl_lib opt)) (mm (np_T (np_array big_x)) (np_array big_x)) =
     Inr \<lparr>ncols = 1, rws = [[Float64 (Fin (1 / 290948384))]]\<rparr>"
  by (simp add: big_gram scalar_lib_def fl_lib_def astype_def inv_upto2_def zero_fl_def one_fl_def)

lemma big_coefficients:
  "mm \<lparr>ncols = 1, rws = [[Float64 (Fin (1 / 290948384))]]\<rparr>
      (mm (np_T (np_array big_x)) (np_array (frame_of_series big_y))) =
   \<lparr>ncols = 1, rws = [[Float64 (Fin (3037000500 / 290948384))]]\<rparr>"
  by (simp add: big_x_def big_y_def mm_def np_T_def np_array_def frame_of_series_def col_def
      dot_def py_sum_def zero_scalar_def zero_fl_def ovf_below)

lemma big_fit_ols:
  "\<exists>m2. fit_model (scalar_lib (fl_lib gives_up)) big_built (big_model ''ols'') = Inr (big_built, m2) \<and>
        Beta_hat m2 = Some [Float64 (Fin (3037000500 / 290948384))]"
proof -
  have c: "constructed big_built (big_model ''ols'') big_x big_y ''ols''"
    by (rule big_constructed) simp
  have l: "length (svalues big_y) = length (rows big_x)"
    by (simp add: big_x_def big_y_def)
  have w: "wf_array (length (columns big_x)) (length (columns big_x))
      \<lparr>ncols = 1, rws = [[Float64 (Fin (1 / 290948384))]]\<rparr>"
    by (simp add: wf_array_def big_x_def)
  note f = fit_model_ols_Inr[OF c l big_inverse w, of gives_up]
  have "Beta_hat (ols_fitted (scalar_lib (fl_lib gives_up)) (big_model ''ols'') (np_array big_x)
       (np_array (frame_of_series big_y)) \<lparr>ncols = 1, rws = [[Float64 (Fin (1 / 290948384))]]\<rparr>
       (columns big_x)) = Some [Float64 (Fin (3037000500 / 290948384))]"
    unfolding ols_fitted_def Let_def big_coefficients by (simp add: col_def)
  with f show ?thesis
    by blast
qed

lemma big_spec:
  "spec_gram [[3037000500], [3037000500]] 0 0 = 18446744074000500000"
  "spec_Xty [[3037000500], [3037000500]] [0, 1] 0 = 3037000500"
  by (simp_all add: spec_gram_def spec_Xty_def)

lemma big_mean: "np_mean (frame_of_series big_y) = Float64 (Fin (1 / 2))"
  by (simp add: np_mean_def ravel_def frame_of_series_def big_y_def py_sum_def zero_scalar_def
      py_float_def one_scalar_def divide_scalar_def eval_nat_numeral)

lemma big_se:
  "logit_se (scalar_lib (fl_lib opt)) (big_model ''logit'') (frame_of_series big_y)
     \<lparr>ncols = 1, rws = [[Float64 (Fin (1 / 290948384))]]\<rparr> = [Float64 (Fin (sqrt (1 / 581896768)))]"
  by (simp add: logit_se_def logit_cov_def big_mean big_model_def py_float_def eval_nat_numeral
      one_scalar_def zero_scalar_def smul_def np_diag_def scalar_lib_def fl_lib_def minus_fl_def)


lemma big_betas:
  "logit_betas (scalar_lib (fl_lib gives_up)) (big_model ''logit'') (frame_of_series big_y) big_x =
     [Float64 (Fin (1 / 10))]"
  by (simp add: logit_betas_def scalar_lib_def fl_lib_def gives_up_def big_model_def py_float_def
      eval_nat_numeral one_scalar_def zero_scalar_def divide_scalar_def)

section \<open>The claims\<close>

text \<open>
  C1. On the reals, with \<open>np.exp\<close> and \<open>np.log\<close> the exponential and the natural
  logarithm: for every table \<open>X\<close> (with the intercept column when it is asked for)
  whose rows have one entry per column and every response of the same height, after a
  successful logit fit the coefficient vector is the point the minimizer returns for the
  objective \<open>loglike\<close> closed over the model's \<open>y\<close> and \<open>X\<close>, started from
  0.1 in each coordinate; and on every vector with one coordinate per column this
  objective is the negative log-likelihood of the specification,
  \<open>- \<Sum>\<^sub>i (y\<^sub>i log \<sigma>(x\<^sub>i b) + (1 - y\<^sub>i) log (1 - \<sigma>(x\<^sub>i b)))\<close> with
  \<open>\<sigma>(t) = exp t / (1 + exp t)\<close>.
\<close>

theorem logit_objective:
  fixes L :: "real numlib"
  assumes "np_exp L = exp" and "np_log L = ln"
    and "init s x y ci ''logit'' = Inr (s1, m)"
    and "lookup s x = Some (DataFrame fx)" and "lookup s y = Some (Series sy)"
    and "wf_frame fx" and "length (svalues sy) = length (rows fx)"
    and "fit_model L s1 m = Inr (s2, m2)"
  shows "Beta_hat m2 =
           Some (res_x (minimize L (\<lambda>b. loglike L b (frame_of_series sy) (design fx ci))
                                   (replicate (length (columns (design fx ci))) (1 / 10)))) \<and>
         (\<forall>b. length b = length (columns (design fx ci)) \<longrightarrow>
              loglike L b (frame_of_series sy) (design fx ci) =
              spec_NLL (rows (design fx ci)) (svalues sy) b)"
proof -
  let ?X = "design fx ci" and ?y = "frame_of_series sy"
  from init_constructed[OF assms(4,5), of "''logit''" ci] assms(3)
  have c: "constructed s1 m ?X sy ''logit''"
    by auto
  then have f: "get_frame s1 (y2 m) = Inr ?y" "get_frame s1 (self_x m) = Inr ?X"
    "num_vars m = length (columns ?X)" "regression_type m = ''logit''"
    by (simp_all add: constructed_def)
  from assms(8) f(4) have "logistic_regression L s1 m = Inr m2"
    by (auto simp: fit_model_def bindE_eq_Inr)
  with f(1,2) have "Beta_hat m2 = Some (logit_betas L m ?y ?X)"
    unfolding logistic_regression_iff by (auto simp: logit_fitted_def)
  then have 1: "Beta_hat m2 =
           Some (res_x (minimize L (\<lambda>b. loglike L b ?y ?X)
                                   (replicate (length (columns ?X)) (1 / 10))))"
    by (simp add: logit_betas_def f(3) tenth_real)
  have 2: "loglike L b ?y ?X = spec_NLL (rows ?X) (svalues sy) b"
    if "length b = length (columns ?X)" for b
    by (rule loglike_is_spec_NLL[OF assms(1,2) wf_frame_design[OF assms(6)] _ _ that])
       (simp_all add: assms(7))
  show ?thesis
    using 1 2 by blast
qed

theorem logit_objective_witness:
  "np_exp demo_lib = exp \<and> np_log demo_lib = ln \<and>
   init demo_store 0 1 True ''logit'' = Inr (demo_built, demo_model ''logit'') \<and>
   wf_frame demo_x \<and> length (svalues demo_y) = length (rows demo_x) \<and>
   (\<exists>m2. fit_model demo_lib demo_built (demo_model ''logit'') = Inr (demo_built, m2) \<and>
      Beta_hat m2 = Some [1 / 10, 1 / 10] \<and>
      loglike demo_lib [1 / 10, 1 / 10] (frame_of_series demo_y) (design demo_x True) =
        spec_NLL [[1, 1], [2, 1], [3, 1]] [0, 1, 1] [1 / 10, 1 / 10])"
proof -
  have e: "np_exp demo_lib = exp" "np_log demo_lib = ln"
    by (simp_all add: demo_lib_def)
  have i: "init demo_store 0 1 True ''logit'' = Inr (demo_built, demo_model ''logit'')"
    by (rule demo_init) simp
  note t = logit_objective[OF e i demo_lookup demo_wf demo_len demo_fit_logit]
  have b: "res_x (minimize demo_lib
      (\<lambda>b. loglike demo_lib b (frame_of_series demo_y) (design demo_x True))
      (replicate (length (columns (design demo_x True))) (1 / 10))) = [1 / 10, 1 / 10]"
    by (simp add: demo_lib_def gives_up_def demo_k eval_nat_numeral)
  have "loglike demo_lib [1 / 10, 1 / 10] (frame_of_series demo_y) (design demo_x True) =
        spec_NLL (rows (design demo_x True)) (svalues demo_y) [1 / 10, 1 / 10]"
    using t by (simp add: demo_k)
  then have "loglike demo_lib [1 / 10, 1 / 10] (frame_of_series demo_y) (design demo_x True) =
        spec_NLL [[1, 1], [2, 1], [3, 1]] [0, 1, 1] [1 / 10, 1 / 10]"
    by (simp add: demo_design demo_y_def)
  with t e i demo_wf demo_len demo_fit_logit show ?thesis
    unfolding b by blast
qed

text \<open>
  C2. The logit fit takes the inverse of \<open>self.x.T @ self.x\<close>, and on a table of
  dtype int64 that product is numpy's integer product, which wraps modulo \<open>2^64\<close>
  without a word. Two observations \<open>x = 3037000500\<close> (an int64 column, no
  intercept) with the responses 0 and 1: \<open>X\<^sup>T X\<close> is
  \<open>18446744074000500000\<close>, the program holds \<open>290948384\<close>, and the standard
  error it stores is the square root of \<open>n mean(y) (1 - mean(y)) / 290948384\<close>,
  that is of \<open>1 / 581896768\<close>, where the covariance
  \<open>n mean(y) (1 - mean(y)) (X\<^sup>T X)\<^sup>-\<^sup>1\<close> has the diagonal entry
  \<open>1 / 36893488148001000000\<close>.
\<close>

theorem logit_int64_overflow:
  "init big_store 0 1 False ''logit'' = Inr (big_built, big_model ''logit'') \<and>
   mm (np_T (np_array big_x)) (np_array big_x) = \<lparr>ncols = 1, rws = [[Int64 290948384]]\<rparr> \<and>
   (\<exists>m2. fit_model (scalar_lib (fl_lib gives_up)) big_built (big_model ''logit'') =
            Inr (big_built, m2) \<and>
         stdError m2 = Some [Float64 (Fin (sqrt (1 / 581896768)))]) \<and>
   2 * spec_mean [0, 1] * (1 - spec_mean [0, 1]) *
     (1 / spec_gram [[3037000500], [3037000500]] 0 0) = 1 / 36893488148001000000 \<and>
   sqrt (1 / 581896768) \<noteq> sqrt (1 / 36893488148001000000)"
proof -
  have i: "init big_store 0 1 False ''logit'' = Inr (big_built, big_model ''logit'')"
    by (rule big_init) simp
  have c: "constructed big_built (big_model ''logit'') big_x big_y ''logit''"
    by (rule big_constructed) simp
  have w: "wf_array (length (columns big_x)) (length (columns big_x))
      \<lparr>ncols = 1, rws = [[Float64 (Fin (1 / 290948384))]]\<rparr>"
    by (simp add: wf_array_def big_x_def)
  have l: "length (logit_betas (scalar_lib (fl_lib gives_up)) (big_model ''logit'')
      (frame_of_series big_y) big_x) = length (columns big_x)"
    unfolding big_betas by (simp add: big_x_def)
  note f = fit_model_logit_Inr[OF c big_inverse w l]
  have s: "stdError (logit_fitted (scalar_lib (fl_lib gives_up)) (big_model ''logit'')
      (frame_of_series big_y) big_x \<lparr>ncols = 1, rws = [[Float64 (Fin (1 / 290948384))]]\<rparr> z) =
      Some [Float64 (Fin (sqrt (1 / 581896768)))]" for z
    unfolding logit_fitted_def big_se by simp
  have e: "\<exists>m2. fit_model (scalar_lib (fl_lib gives_up)) big_built (big_model ''logit'') =
            Inr (big_built, m2) \<and>
         stdError m2 = Some [Float64 (Fin (sqrt (1 / 581896768)))]"
    using f s by blast
  have v: "2 * spec_mean [0, 1] * (1 - spec_mean [0, 1]) *
     (1 / spec_gram [[3037000500], [3037000500]] 0 0) = 1 / 36893488148001000000"
    unfolding big_spec by (simp add: spec_mean_def)
  have n: "sqrt (1 / 581896768) \<noteq> sqrt (1 / 36893488148001000000)"
    by simp
  show ?thesis
    using i big_gram e v n by blast
qed

text \<open>
  C3. \<open>BetaHat\<close> multiplies \<open>self.x1.T @ self.x1\<close> on the array
  \<open>np.array(self.x)\<close>, which keeps the dtype int64 of an all-integer table, and
  numpy's integer product wraps modulo \<open>2^64\<close> without a word. On the same two
  observations, \<open>x = 3037000500\<close> twice with the responses 0 and 1 and no
  intercept: \<open>X\<^sup>T X\<close> is \<open>18446744074000500000\<close> and \<open>X\<^sup>T y\<close> is
  \<open>3037000500\<close>, the program holds \<open>290948384\<close> for the first, and the
  coefficient it stores is \<open>3037000500 / 290948384\<close>, about 10.4, which does not
  satisfy the normal equation (the solution is \<open>1 / 6074001000\<close>).
\<close>

theorem ols_int64_overflow:
  "init big_store 0 1 False ''ols'' = Inr (big_built, big_model ''ols'') \<and>
   mm (np_T (np_array big_x)) (np_array big_x) = \<lparr>ncols = 1, rws = [[Int64 290948384]]\<rparr> \<and>
   (\<exists>m2. fit_model (scalar_lib (fl_lib gives_up)) big_built (big_model ''ols'') =
            Inr (big_built, m2) \<and>
         Beta_hat m2 = Some [Float64 (Fin (3037000500 / 290948384))]) \<and>
   spec_gram [[3037000500], [3037000500]] 0 0 = 18446744074000500000 \<and>
   spec_Xty [[3037000500], [3037000500]] [0, 1] 0 = 3037000500 \<and>
   spec_gram [[3037000500], [3037000500]] 0 0 * (3037000500 / 290948384) \<noteq>
     spec_Xty [[3037000500], [3037000500]] [0, 1] 0"
proof -
  have i: "init big_store 0 1 False ''ols'' = Inr (big_built, big_model ''ols'')"
    by (rule big_init) simp
  have n: "spec_gram [[3037000500], [3037000500]] 0 0 * (3037000500 / 290948384) \<noteq>
     spec_Xty [[3037000500], [3037000500]] [0, 1] 0"
    unfolding big_spec by simp
  show ?thesis
    using i big_gram big_fit_ols big_spec n by blast
qed

text \<open>
  C4. On the reals: after a successful OLS fit, \<open>df\<close> is \<open>n - k\<close> and the p-value
  of every coefficient \<open>j\<close> is the library's Student-t survival function with
  \<open>n - k\<close> degrees of freedom at the statistic \<open>t\<^sub>j\<close> itself: not at its absolute
  value, not doubled, and the same for every coefficient. Hence, the survival function
  being above one half left of zero (as that of Student's t is), a negative statistic has
  a p-value above one half.
\<close>

theorem ols_p_value:
  fixes L :: "real numlib"
  assumes "init s x y ci ''ols'' = Inr (s1, m)"
    and "lookup s x = Some (DataFrame fx)"
    and "fit_model L s1 m = Inr (s2, m2)"
    and "\<forall>t<0. 1 / 2 < t_sf L t (int (length (rows fx)) - int (length (columns (design fx ci))))"
  shows "\<exists>ts pv. t_stat m2 = Some ts \<and> p_val m2 = Some pv \<and>
           df m2 = Some (int (length (rows fx)) - int (length (columns (design fx ci)))) \<and>
           length pv = length ts \<and> length ts = length (columns (design fx ci)) \<and>
           (\<forall>j < length ts.
              pv ! j = t_sf L (ts ! j)
                         (int (length (rows fx)) - int (length (columns (design fx ci)))) \<and>
              (ts ! j < 0 \<longrightarrow> 1 / 2 < pv ! j))"
proof -
  let ?X = "np_array (design fx ci)"
  let ?d = "int (length (rows fx)) - int (length (columns (design fx ci)))"
  from init_InrD[OF assms(1)] assms(2) obtain sy where
    ly: "lookup s y = Some (Series sy)"
    by auto
  from init_constructed[OF assms(2) ly, of "''ols''" ci] assms(1)
  have c: "constructed s1 m (design fx ci) sy ''ols''"
    by auto
  then have f: "x1 m = Some ?X" "regression_type m = ''ols''"
    "get_list s1 (x_list m) = Inr (columns (design fx ci))"
    by (simp_all add: constructed_def)
  from assms(3) f(2) have "ols_regression L s1 m = Inr m2"
    by (auto simp: fit_model_def bindE_eq_Inr)
  from ols_regression_InrD[OF this] f(1,3) obtain Y V where
    sh: "ols_shapes ?X Y V (columns (design fx ci))"
    and m2: "m2 = ols_fitted L m ?X Y V (columns (design fx ci))"
    by auto
  define ts where "ts = map (\<lambda>(Bj, Oj). Bj / Oj) (zip (col (mm V (mm (np_T ?X) Y)) 0)
      (map (np_sqrt L) (np_diag (smul (resid_var ?X Y (mm V (mm (np_T ?X) Y))) V))))"
  have d: "int (length (rws ?X)) - int (ncols ?X) = ?d"
    by (simp add: np_array_def)
  have o: "t_stat m2 = Some ts" "p_val m2 = Some (map (\<lambda>t. t_sf L t ?d) ts)" "df m2 = Some ?d"
    unfolding m2 ols_fitted_def Let_def d ts_def by simp_all
  have l: "length ts = length (columns (design fx ci))"
    using sh by (simp add: ts_def ols_shapes_def np_array_def)
  show ?thesis
    using o l assms(4) by simp
qed

theorem ols_p_value_witness:
  "init demo_store 0 1 True ''ols'' = Inr (demo_built, demo_model ''ols'') \<and>
   (\<exists>m2 ts pv. fit_model demo_lib demo_built (demo_model ''ols'') = Inr (demo_built, m2) \<and>
      t_stat m2 = Some ts \<and> p_val m2 = Some pv \<and> df m2 = Some 1 \<and>
      ts ! 1 = - 1 / 3 / sqrt (7 / 18) \<and> ts ! 1 < 0 \<and>
      pv ! 1 = t_sf demo_lib (ts ! 1) 1 \<and> 1 / 2 < pv ! 1)"
proof -
  define m2 where "m2 = ols_fitted demo_lib (demo_model ''ols'') (np_array (design demo_x True))
          (np_array (frame_of_series demo_y)) demo_inv (columns (design demo_x True))"
  define d where "d = int (length (rows demo_x)) - int (length (columns (design demo_x True)))"
  have i: "init demo_store 0 1 True ''ols'' = Inr (demo_built, demo_model ''ols'')"
    by (rule demo_init) simp
  have f: "fit_model demo_lib demo_built (demo_model ''ols'') = Inr (demo_built, m2)"
    unfolding m2_def by (rule demo_fit_ols)
  have h: "\<forall>t<0. 1 / 2 < t_sf demo_lib t d"
    using cauchy_sf_neg by (simp add: demo_lib_def del: less_divide_eq_numeral1)
  from ols_p_value[OF i demo_lookup(1) f h[unfolded d_def]]
  obtain ts pv where
    o: "t_stat m2 = Some ts" "p_val m2 = Some pv" "df m2 = Some d"
      "length ts = length (columns (design demo_x True))"
    and a: "\<forall>j < length ts. pv ! j = t_sf demo_lib (ts ! j) d \<and> (ts ! j < 0 \<longrightarrow> 1 / 2 < pv ! j)"
    unfolding d_def by blast
  have d1: "d = 1"
    by (simp add: d_def demo_k)
  from o(1) have ts: "ts = [1 / 2 / sqrt (1 / 12), - 1 / 3 / sqrt (7 / 18)]"
    unfolding m2_def demo_ols_values by simp
  have v: "ts ! 1 = - 1 / 3 / sqrt (7 / 18)"
    unfolding ts by simp
  have neg: "ts ! 1 < 0"
    unfolding v by (simp add: divide_neg_pos)
  have "1 < length ts"
    unfolding ts by simp
  with a neg have p: "pv ! 1 = t_sf demo_lib (ts ! 1) d" "1 / 2 < pv ! 1"
    by blast+
  show ?thesis
    using i f o(1,2,3) v neg p unfolding d1 by blast
qed

text \<open>
  C5, as stated: evaluating the objective never yields NaN, because the probabilities are
  clamped or the evaluation fails. It does yield NaN: with one observation \<open>x = 1000\<close>,
  \<open>y = 1\<close> and the coefficient 2, \<open>exp 2000\<close> overflows to \<open>inf\<close>, gamma is
  \<open>inf / inf\<close>, and the objective returns NaN.
\<close>

theorem loglike_nan_counterexample:
  "loglike (fl_lib gives_up) [Fin 2] \<lparr>columns = [''y''], rows = [[Fin 1]]\<rparr>
     \<lparr>columns = [''x''], rows = [[Fin 1000]]\<rparr> = NaN"
  by (simp add: loglike_def fl_lib_def dot_def py_sum_def ravel_def zero_fl_def one_fl_def
      fl_exp_2000)

text \<open>
  C5, amended. The objective is unguarded: it takes the logarithms of gamma and of
  \<open>1 - gamma\<close> as computed, clamps nothing and raises nothing. Whenever \<open>exp\<close> of
  the linear predictor overflows for an observation the sum reaches, the objective returns
  NaN to the minimizer.
\<close>

theorem loglike_overflow_nan:
  assumes "i < length (rows x)" and "i < length (ravel y)"
    and "fl_exp (dot (rows x ! i) b) = PInf"
  shows "loglike (fl_lib opt) b y x = NaN"
proof -
  let ?gamma = "map (\<lambda>r. fl_exp (dot r b) / (1 + fl_exp (dot r b))) (rows x)"
  let ?terms = "map (\<lambda>(yi, gi). yi * fl_log gi + (1 - yi) * fl_log (1 - gi)) (zip (ravel y) ?gamma)"
  have g: "?gamma ! i = NaN"
    using assms(1,3) by (simp add: one_fl_def)
  have l: "i < length ?terms" "i < length (zip (ravel y) ?gamma)"
    using assms(1,2) by simp_all
  have "?terms ! i = (\<lambda>(yi, gi). yi * fl_log gi + (1 - yi) * fl_log (1 - gi))
                      (zip (ravel y) ?gamma ! i)"
    using l(2) by (rule nth_map)
  also have "zip (ravel y) ?gamma ! i = (ravel y ! i, ?gamma ! i)"
    using l(2) by simp
  finally have "?terms ! i = NaN"
    unfolding g by simp
  then have "NaN \<in> set ?terms"
    using nth_mem[OF l(1)] by simp
  then have "py_sum ?terms = NaN"
    by (rule py_sum_NaN)
  then show ?thesis
    by (simp add: loglike_def fl_lib_def)
qed


theorem loglike_overflow_nan_witness:
  "(0::nat) < length (rows \<lparr>columns = [''x''], rows = [[Fin 1000], [Fin 1]]\<rparr>) \<and>
   0 < length (ravel \<lparr>columns = [''y''], rows = [[Fin 0], [Fin 1]]\<rparr>) \<and>
   fl_exp (dot (rows \<lparr>columns = [''x''], rows = [[Fin 1000], [Fin 1]]\<rparr> ! 0) [Fin 2]) = PInf \<and>
   loglike (fl_lib diverges) [Fin 2] \<lparr>columns = [''y''], rows = [[Fin 0], [Fin 1]]\<rparr>
     \<lparr>columns = [''x''], rows = [[Fin 1000], [Fin 1]]\<rparr> = NaN"
proof -
  have e: "fl_exp (dot (rows \<lparr>columns = [''x''], rows = [[Fin 1000], [Fin 1]]\<rparr> ! 0) [Fin 2]) = PInf"
    by (simp add: dot_def py_sum_def zero_fl_def fl_exp_2000)
  have "(0::nat) < length (rows \<lparr>columns = [''x''], rows = [[Fin 1000], [Fin 1]]\<rparr>)"
    "0 < length (ravel \<lparr>columns = [''y''], rows = [[Fin 0], [Fin 1]]\<rparr>)"
    by (simp_all add: ravel_def)
  from loglike_overflow_nan[OF this e, of diverges] this e show ?thesis
    by blast
qed

text \<open>
  C6, as stated: a returned point with non-finite values makes the fit fail instead of
  populating the results. It does not: with a minimizer that reports no success and
  returns NaN, the fit of two observations completes, and NaN is the coefficient in
  \<open>Beta_hat\<close> and in \<open>results\<close>.
\<close>

theorem nonfinite_point_counterexample:
  "init two_store 0 1 False ''logit'' = Inr (two_built, two_model ''logit'') \<and>
   fit_model (fl_lib diverges) two_built (two_model ''logit'') =
     Inr (two_built, (two_model ''logit'')
       \<lparr>Beta_hat := Some [NaN], stdError := Some [Fin (sqrt (1 / 10))], zScores := Some [NaN],
        p_val := Some [NaN],
        results := Some [(''x'', [(''coefficient'', NaN), (''standard_error'', Fin (sqrt (1 / 10))),
                                  (''z_stat'', NaN), (''p_value'', NaN)])]\<rparr>)"
proof -
  have c: "constructed two_built (two_model ''logit'') two_x two_y ''logit''"
    by (rule two_constructed) simp
  have w: "wf_array (length (columns two_x)) (length (columns two_x))
      \<lparr>ncols = 1, rws = [[Fin (1 / 5)]]\<rparr>"
    by (simp add: wf_array_def two_x_def)
  have l: "length (logit_betas (fl_lib diverges) (two_model ''logit'') (frame_of_series two_y)
      two_x) = length (columns two_x)"
    unfolding two_betas_diverges by (simp add: two_x_def)
  have f: "fit_model (fl_lib diverges) two_built (two_model ''logit'') =
      Inr (two_built, logit_fitted (fl_lib diverges) (two_model ''logit'') (frame_of_series two_y)
         two_x \<lparr>ncols = 1, rws = [[Fin (1 / 5)]]\<rparr> (map2 (/) [NaN] [Fin (sqrt (1 / 10))]))"
    using fit_model_logit_Inr[OF c two_inverse w l] unfolding two_betas_diverges two_se .
  have r: "logit_fitted (fl_lib diverges) (two_model ''logit'') (frame_of_series two_y)
         two_x \<lparr>ncols = 1, rws = [[Fin (1 / 5)]]\<rparr> (map2 (/) [NaN] [Fin (sqrt (1 / 10))]) =
      (two_model ''logit'')
       \<lparr>Beta_hat := Some [NaN], stdError := Some [Fin (sqrt (1 / 10))], zScores := Some [NaN],
        p_val := Some [NaN],
        results := Some [(''x'', [(''coefficient'', NaN), (''standard_error'', Fin (sqrt (1 / 10))),
                                  (''z_stat'', NaN), (''p_value'', NaN)])]\<rparr>"
    unfolding logit_fitted_def two_betas_diverges two_se
    by (simp add: logit_pv_def fl_lib_def fl_sf_def dict_of_columns_def result_row_def two_x_def)
  show ?thesis
    using two_init[of "''logit''"] f[unfolded r] by simp
qed

text \<open>
  C6, amended. Whenever the minimizer reports non-convergence the logit fit still returns
  the point it found, and so it does for a point with non-finite values: the fit reads
  neither the convergence flag nor the values. Provided the library inverts \<open>X\<^sup>T X\<close>
  and the minimizer returns a vector of the length of its starting point, the fit
  completes, the coefficient vector is the returned point whatever it holds, the results
  are populated, and the outcome is the same with the flag true or false. No warning and
  no error of the fit's own exists.
\<close>

theorem flag_and_finiteness_ignored:
  fixes L :: "fl numlib"
  assumes "init s x y ci ''logit'' = Inr (s1, m)"
    and "lookup s x = Some (DataFrame fx)" and "lookup s y = Some (Series sy)"
    and "linalg_inv L (mm (np_T (np_array (design fx ci))) (np_array (design fx ci))) = Inr V"
    and "wf_array (length (columns (design fx ci))) (length (columns (design fx ci))) V"
    and "length (res_x (minimize L (\<lambda>b. loglike L b (frame_of_series sy) (design fx ci))
            (replicate (length (columns (design fx ci))) (Fin (1 / 10))))) =
         length (columns (design fx ci))"
  shows "\<exists>m2 res. fit_model L s1 m = Inr (s1, m2) \<and>
           Beta_hat m2 =
             Some (res_x (minimize L (\<lambda>b. loglike L b (frame_of_series sy) (design fx ci))
                            (replicate (length (columns (design fx ci))) (Fin (1 / 10))))) \<and>
           results m2 = Some res \<and>
           fit_model (with_flag True L) s1 m = Inr (s1, m2) \<and>
           fit_model (with_flag False L) s1 m = Inr (s1, m2)"
proof -
  let ?X = "design fx ci" and ?y = "frame_of_series sy"
  from init_constructed[OF assms(2,3), of "''logit''" ci] assms(1)
  have c: "constructed s1 m ?X sy ''logit''"
    by auto
  then have n: "num_vars m = length (columns ?X)" and rt: "regression_type m = ''logit''"
    by (simp_all add: constructed_def)
  have b: "logit_betas L m ?y ?X =
      res_x (minimize L (\<lambda>b. loglike L b ?y ?X) (replicate (length (columns ?X)) (Fin (1 / 10))))"
    by (simp add: logit_betas_def n tenth_fl)
  have l: "length (logit_betas L m ?y ?X) = length (columns ?X)"
    unfolding b by (rule assms(6))
  have f: "fit_model L s1 m = Inr (s1, logit_fitted L m ?y ?X V
      (map2 (/) (logit_betas L m ?y ?X) (logit_se L m ?y V)))"
    by (rule fit_model_logit_Inr[OF c assms(4,5) l])
  have g: "fit_model (with_flag c L) s1 m = fit_model L s1 m" for c
    using rt by (simp add: fit_model_def logistic_regression_with_flag)
  show ?thesis
    unfolding g f by (simp add: logit_fitted_def b)
qed


theorem flag_and_finiteness_ignored_witness:
  "init two_store 0 1 False ''logit'' = Inr (two_built, two_model ''logit'') \<and>
   lookup two_store 0 = Some (DataFrame two_x) \<and> lookup two_store 1 = Some (Series two_y) \<and>
   linalg_inv (fl_lib diverges) (mm (np_T (np_array (design two_x False)))
      (np_array (design two_x False))) = Inr \<lparr>ncols = 1, rws = [[Fin (1 / 5)]]\<rparr> \<and>
   wf_array (length (columns (design two_x False))) (length (columns (design two_x False)))
      \<lparr>ncols = 1, rws = [[Fin (1 / 5)]]\<rparr> \<and>
   length (res_x (minimize (fl_lib diverges)
      (\<lambda>b. loglike (fl_lib diverges) b (frame_of_series two_y) (design two_x False))
      (replicate (length (columns (design two_x False))) (Fin (1 / 10))))) =
     length (columns (design two_x False)) \<and>
   (\<exists>m2 res. fit_model (fl_lib diverges) two_built (two_model ''logit'') = Inr (two_built, m2) \<and>
      Beta_hat m2 = Some [NaN] \<and> results m2 = Some res \<and>
      fit_model (with_flag True (fl_lib diverges)) two_built (two_model ''logit'') =
        Inr (two_built, m2) \<and>
      fit_model (with_flag False (fl_lib diverges)) two_built (two_model ''logit'') =
        Inr (two_built, m2))"
proof -
  have d: "design two_x False = two_x"
    by (simp add: design_def)
  have i: "init two_store 0 1 False ''logit'' = Inr (two_built, two_model ''logit'')"
    by (rule two_init) simp
  have v: "linalg_inv (fl_lib diverges) (mm (np_T (np_array (design two_x False)))
      (np_array (design two_x False))) = Inr \<lparr>ncols = 1, rws = [[Fin (1 / 5)]]\<rparr>"
    unfolding d by (rule two_inverse)
  have w: "wf_array (length (columns (design two_x False))) (length (columns (design two_x False)))
      \<lparr>ncols = 1, rws = [[Fin (1 / 5)]]\<rparr>"
    by (simp add: design_def wf_array_def two_x_def)
  have r: "res_x (minimize (fl_lib diverges)
      (\<lambda>b. loglike (fl_lib diverges) b (frame_of_series two_y) (design two_x False))
      (replicate (length (columns (design two_x False))) (Fin (1 / 10)))) = [NaN]"
    by (simp add: design_def fl_lib_def diverges_def two_x_def)
  have l: "length (res_x (minimize (fl_lib diverges)
      (\<lambda>b. loglike (fl_lib diverges) b (frame_of_series two_y) (design two_x False))
      (replicate (length (columns (design two_x False))) (Fin (1 / 10))))) =
     length (columns (design two_x False))"
    unfolding r by (simp add: design_def two_x_def)
  from flag_and_finiteness_ignored[OF i two_lookup v w l] i two_lookup v w l show ?thesis
    unfolding r by blast
qed

text \<open>
  C7, as stated: with as many columns as observations or more, an OLS fit fails, and the
  residual variance is never divided by a \<open>df\<close> that is zero. It is: with one
  observation \<open>x = 2\<close>, \<open>y = 3\<close> and no intercept, the fit completes with
  \<open>df = 0\<close>, the residual variance is \<open>0 / 0\<close>, and the standard error, the
  statistic and the p-value in the results are NaN.
\<close>

theorem no_df_guard_counterexample:
  "init one_store 0 1 False ''ols'' = Inr (one_built, one_model ''ols'') \<and>
   fit_model (fl_lib gives_up) one_built (one_model ''ols'') =
     Inr (one_built, (one_model ''ols'')
       \<lparr>Beta_hat_M := Some \<lparr>ncols = 1, rws = [[Fin (3 / 2)]]\<rparr>, Beta_hat := Some [Fin (3 / 2)],
        df := Some 0, stdError := Some [NaN], t_stat := Some [NaN], p_val := Some [NaN],
        results := Some [(''x'', [(''coefficient'', Fin (3 / 2)), (''standard_error'', NaN),
                                  (''t_stat'', NaN), (''p_value'', NaN)])]\<rparr>)"
proof -
  have c: "constructed one_built (one_model ''ols'') one_x one_y ''ols''"
    by (rule one_constructed) simp
  have l: "length (svalues one_y) = length (rows one_x)"
    by (simp add: one_x_def one_y_def)
  have w: "wf_array (length (columns one_x)) (length (columns one_x))
      \<lparr>ncols = 1, rws = [[Fin (1 / 4)]]\<rparr>"
    by (simp add: wf_array_def one_x_def)
  have n: "columns one_x = [''x'']"
    by (simp add: one_x_def)
  have f: "fit_model (fl_lib gives_up) one_built (one_model ''ols'') =
      Inr (one_built, ols_fitted (fl_lib gives_up) (one_model ''ols'') (np_array one_x)
       (np_array (frame_of_series one_y)) \<lparr>ncols = 1, rws = [[Fin (1 / 4)]]\<rparr> [''x''])"
    using fit_model_ols_Inr[OF c l one_inverse w, of gives_up] unfolding n .
  show ?thesis
    using one_init[of "''ols''"] f[unfolded one_fitted] by simp
qed

text \<open>
  C7, amended. An OLS fit has no guard on the degrees of freedom. Whatever the numbers
  \<open>n\<close> of observations and \<open>k\<close> of columns, once the library has inverted
  \<open>X\<^sup>T X\<close> the fit completes: \<open>df\<close> is \<open>n - k\<close>, the residual variance is the
  residual sum of squares divided by it, and the standard errors are the square roots of
  the diagonal of that times the inverse. With \<open>n = k\<close> the division is by zero and
  the residual variance is NaN or an infinity. (When the library cannot invert, the fit
  ends with the library's LinAlgError.)
\<close>

theorem no_df_guard:
  fixes L :: "fl numlib"
  assumes "init s x y ci ''ols'' = Inr (s1, m)"
    and "lookup s x = Some (DataFrame fx)" and "lookup s y = Some (Series sy)"
    and "length (svalues sy) = length (rows fx)"
    and "linalg_inv L (mm (np_T (np_array (design fx ci))) (np_array (design fx ci))) = Inr V"
    and "wf_array (length (columns (design fx ci))) (length (columns (design fx ci))) V"
  shows "\<exists>m2 B. fit_model L s1 m = Inr (s1, m2) \<and>
           df m2 = Some (int (length (rows fx)) - int (length (columns (design fx ci)))) \<and>
           Beta_hat_M m2 = Some B \<and>
           stdError m2 = Some (map (np_sqrt L) (np_diag (smul
              (resid_var (np_array (design fx ci)) (np_array (frame_of_series sy)) B) V))) \<and>
           (length (rows fx) = length (columns (design fx ci)) \<longrightarrow>
              \<not> is_finite (resid_var (np_array (design fx ci)) (np_array (frame_of_series sy)) B))"
proof -
  let ?X = "np_array (design fx ci)" and ?Y = "np_array (frame_of_series sy)"
  from init_constructed[OF assms(2,3), of "''ols''" ci] assms(1)
  have c: "constructed s1 m (design fx ci) sy ''ols''"
    by auto
  have l: "length (svalues sy) = length (rows (design fx ci))"
    using assms(4) by simp
  have f: "fit_model L s1 m = Inr (s1, ols_fitted L m ?X ?Y V (columns (design fx ci)))"
    by (rule fit_model_ols_Inr[OF c l assms(5,6)])
  have z: "\<not> is_finite (resid_var ?X ?Y (mm V (mm (np_T ?X) ?Y)))"
    if "length (rows fx) = length (columns (design fx ci))"
    using that by (simp add: resid_var_def np_array_def py_float_0_fl div_zero_not_finite)
  show ?thesis
    unfolding f using z
    by (simp add: ols_fitted_def Let_def np_array_def)
qed


theorem no_df_guard_witness:
  "init one_store 0 1 False ''ols'' = Inr (one_built, one_model ''ols'') \<and>
   lookup one_store 0 = Some (DataFrame one_x) \<and> lookup one_store 1 = Some (Series one_y) \<and>
   length (svalues one_y) = length (rows one_x) \<and>
   linalg_inv (fl_lib gives_up) (mm (np_T (np_array (design one_x False)))
      (np_array (design one_x False))) = Inr \<lparr>ncols = 1, rws = [[Fin (1 / 4)]]\<rparr> \<and>
   wf_array (length (columns (design one_x False))) (length (columns (design one_x False)))
      \<lparr>ncols = 1, rws = [[Fin (1 / 4)]]\<rparr> \<and>
   length (rows one_x) = length (columns (design one_x False)) \<and>
   (\<exists>m2 B. fit_model (fl_lib gives_up) one_built (one_model ''ols'') = Inr (one_built, m2) \<and>
      df m2 = Some 0 \<and> Beta_hat_M m2 = Some B \<and>
      \<not> is_finite (resid_var (np_array (design one_x False))
                     (np_array (frame_of_series one_y)) B))"
proof -
  have d: "design one_x False = one_x"
    by (simp add: design_def)
  have i: "init one_store 0 1 False ''ols'' = Inr (one_built, one_model ''ols'')"
    by (rule one_init) simp
  have l: "length (svalues one_y) = length (rows one_x)"
    by (simp add: one_x_def one_y_def)
  have v: "linalg_inv (fl_lib gives_up) (mm (np_T (np_array (design one_x False)))
      (np_array (design one_x False))) = Inr \<lparr>ncols = 1, rws = [[Fin (1 / 4)]]\<rparr>"
    unfolding d by (rule one_inverse)
  have w: "wf_array (length (columns (design one_x False))) (length (columns (design one_x False)))
      \<lparr>ncols = 1, rws = [[Fin (1 / 4)]]\<rparr>"
    by (simp add: design_def wf_array_def one_x_def)
  have e: "length (rows one_x) = length (columns (design one_x False))"
    by (simp add: design_def one_x_def)
  from no_df_guard[OF i one_lookup l v w] e
  have "\<exists>m2 B. fit_model (fl_lib gives_up) one_built (one_model ''ols'') = Inr (one_built, m2) \<and>
      df m2 = Some 0 \<and> Beta_hat_M m2 = Some B \<and>
      \<not> is_finite (resid_var (np_array (design one_x False))
                     (np_array (frame_of_series one_y)) B)"
    by auto
  with i one_lookup l v w e show ?thesis
    by blast
qed

text \<open>
  C8. After a successful fit of either family, on a model built from a table whose column
  names (with \<open>intercept\<close>, when it is added) are distinct: the keys of \<open>results\<close>
  are the column names of the design matrix in column order, \<open>intercept\<close> last when
  \<open>create_intercept\<close> is true; the entry of the \<open>i\<close>-th name is the dictionary with
  exactly the keys \<open>coefficient\<close>, \<open>standard_error\<close>, \<open>t_stat\<close> (OLS) or
  \<open>z_stat\<close> (logit) and \<open>p_value\<close>, in this order; and its values are the
  \<open>i\<close>-th entries of the coefficient array, of the standard errors, of the statistics
  and of the p-values the model holds.
\<close>

theorem results_mapping:
  assumes "init s x y ci rt = Inr (s1, m)" and "lookup s x = Some (DataFrame fx)"
    and "fit_model L s1 m = Inr (s2, m2)"
    and "distinct (columns fx @ (if ci then [''intercept''] else []))"
  shows "\<exists>res b se ts pv.
           results m2 = Some res \<and> Beta_hat m2 = Some b \<and> stdError m2 = Some se \<and>
           (if rt = ''ols'' then t_stat m2 else zScores m2) = Some ts \<and> p_val m2 = Some pv \<and>
           map fst res = columns fx @ (if ci then [''intercept''] else []) \<and>
           length res \<le> length b \<and>
           (\<forall>i < length res. map_of res (map fst res ! i) =
               Some [(''coefficient'', b ! i), (''standard_error'', se ! i),
                     (if rt = ''ols'' then ''t_stat'' else ''z_stat'', ts ! i),
                     (''p_value'', pv ! i)])"
proof -
  let ?names = "columns fx @ (if ci then [''intercept''] else [])"
  from init_InrD[OF assms(1)] assms(2) obtain sy where
    ly: "lookup s y = Some (Series sy)" and rt: "rt = ''ols'' \<or> rt = ''logit''"
    by auto
  from init_constructed[OF assms(2) ly rt, of ci] assms(1)
  have c: "constructed s1 m (design fx ci) sy rt"
    by auto
  then have f: "get_list s1 (x_list m) = Inr ?names" "get_frame s1 (self_x m) = Inr (design fx ci)"
    "regression_type m = rt"
    by (simp_all add: constructed_def columns_design)
  have d: "distinct ?names"
    by (rule assms(4))
  from rt show ?thesis
  proof
    assume ols: "rt = ''ols''"
    with assms(3) f(3) obtain r: "ols_regression L s1 m = Inr m2"
      by (auto simp: fit_model_def bindE_eq_Inr)
    from ols_regression_InrD[OF r] f(1) obtain X Y V where
      sh: "ols_shapes X Y V ?names" and m2: "m2 = ols_fitted L m X Y V ?names"
      by auto
    define b where "b = col (mm V (mm (np_T X) Y)) 0"
    define se where "se = map (np_sqrt L) (np_diag (smul (resid_var X Y (mm V (mm (np_T X) Y))) V))"
    define ts where "ts = map (\<lambda>(Bj, Oj). Bj / Oj) (zip b se)"
    define pv where "pv = map (\<lambda>t. t_sf L t (int (length (rws X)) - int (ncols X))) ts"
    have o: "Beta_hat m2 = Some b" "stdError m2 = Some se" "t_stat m2 = Some ts"
      "p_val m2 = Some pv" "results m2 = Some (dict_of_columns ''t_stat'' ?names b se ts pv)"
      by (simp_all add: m2 ols_fitted_def Let_def b_def se_def ts_def pv_def)
    have lb: "length b = length ?names"
      using sh by (simp add: b_def ols_shapes_def)
    show ?thesis
      using o lb ols
        dict_of_columns_lookup[OF d, where stat="''t_stat''" and b=b and se=se and ts=ts and pv=pv]
      by (simp add: result_row_def)
  next
    assume logit: "rt = ''logit''"
    with assms(3) f(3) obtain r: "logistic_regression L s1 m = Inr m2"
      by (auto simp: fit_model_def bindE_eq_Inr)
    from r f(2) obtain yf V z where
      lb: "length (columns (design fx ci)) \<le> length (logit_betas L m yf (design fx ci))"
      and m2: "m2 = logit_fitted L m yf (design fx ci) V z"
      unfolding logistic_regression_iff by auto
    have o: "Beta_hat m2 = Some (logit_betas L m yf (design fx ci))"
      "stdError m2 = Some (logit_se L m yf V)" "zScores m2 = Some z"
      "p_val m2 = Some (logit_pv L z)"
      "results m2 = Some (dict_of_columns ''z_stat'' ?names (logit_betas L m yf (design fx ci))
                            (logit_se L m yf V) z (logit_pv L z))"
      by (simp_all add: m2 logit_fitted_def columns_design)
    show ?thesis
      using o logit lb
        dict_of_columns_lookup[OF d, where stat="''z_stat''"
          and b="logit_betas L m yf (design fx ci)" and se="logit_se L m yf V" and ts=z
          and pv="logit_pv L z"]
      by (simp add: result_row_def columns_design)
  qed
qed

theorem results_mapping_witness:
  "init demo_store 0 1 True ''ols'' = Inr (demo_built, demo_model ''ols'') \<and>
   lookup demo_store 0 = Some (DataFrame demo_x) \<and>
   distinct (columns demo_x @ [''intercept'']) \<and>
   (\<exists>m2 res b se ts pv.
      fit_model demo_lib demo_built (demo_model ''ols'') = Inr (demo_built, m2) \<and>
      results m2 = Some res \<and> Beta_hat m2 = Some b \<and> stdError m2 = Some se \<and>
      t_stat m2 = Some ts \<and> p_val m2 = Some pv \<and>
      map fst res = [''x'', ''intercept''] \<and> b = [1 / 2, - 1 / 3] \<and>
      map_of res ''x'' =
        Some [(''coefficient'', b ! 0), (''standard_error'', se ! 0),
              (''t_stat'', ts ! 0), (''p_value'', pv ! 0)] \<and>
      map_of res ''intercept'' =
        Some [(''coefficient'', b ! 1), (''standard_error'', se ! 1),
              (''t_stat'', ts ! 1), (''p_value'', pv ! 1)])"
proof -
  define m2 where "m2 = ols_fitted demo_lib (demo_model ''ols'') (np_array (design demo_x True))
          (np_array (frame_of_series demo_y)) demo_inv (columns (design demo_x True))"
  have i: "init demo_store 0 1 True ''ols'' = Inr (demo_built, demo_model ''ols'')"
    by (rule demo_init) simp
  have f: "fit_model demo_lib demo_built (demo_model ''ols'') = Inr (demo_built, m2)"
    unfolding m2_def by (rule demo_fit_ols)
  have d: "distinct (columns demo_x @ (if True then [''intercept''] else []))"
    by (simp add: demo_x_def)
  have n: "columns demo_x @ (if True then [''intercept''] else []) = [''x'', ''intercept'']"
    by (simp add: demo_x_def)
  have "\<exists>res b se ts pv.
           results m2 = Some res \<and> Beta_hat m2 = Some b \<and> stdError m2 = Some se \<and>
           t_stat m2 = Some ts \<and> p_val m2 = Some pv \<and>
           map fst res = [''x'', ''intercept''] \<and> length res \<le> length b \<and>
           (\<forall>i < length res. map_of res (map fst res ! i) =
               Some [(''coefficient'', b ! i), (''standard_error'', se ! i),
                     (''t_stat'', ts ! i), (''p_value'', pv ! i)])"
    using results_mapping[OF i demo_lookup(1) f d] unfolding n
    by (simp only: simp_thms if_True)
  then obtain res b se ts pv where
    o: "results m2 = Some res" "Beta_hat m2 = Some b" "stdError m2 = Some se"
      "t_stat m2 = Some ts" "p_val m2 = Some pv" "map fst res = [''x'', ''intercept'']"
    and a: "\<forall>i < length res. map_of res (map fst res ! i) =
               Some [(''coefficient'', b ! i), (''standard_error'', se ! i),
                     (''t_stat'', ts ! i), (''p_value'', pv ! i)]"
    by (elim exE conjE) (rule that)
  have "length (map fst res) = 2"
    unfolding o(6) by simp
  then have l: "0 < length res" "1 < length res"
    by simp_all
  have r0: "map_of res ''x'' = Some [(''coefficient'', b ! 0), (''standard_error'', se ! 0),
              (''t_stat'', ts ! 0), (''p_value'', pv ! 0)]"
    using a[rule_format, OF l(1)] unfolding o(6) by simp
  have r1: "map_of res ''intercept'' = Some [(''coefficient'', b ! 1), (''standard_error'', se ! 1),
              (''t_stat'', ts ! 1), (''p_value'', pv ! 1)]"
    using a[rule_format, OF l(2)] unfolding o(6) by simp
  from o(2) have b: "b = [1 / 2, - 1 / 3]"
    unfolding m2_def demo_ols_values by simp
  have "distinct (columns demo_x @ [''intercept''])"
    using d by simp
  with i demo_lookup(1) f o b r0 r1 show ?thesis
    by (intro conjI exI) assumption+
qed

text \<open>
  C9. Fitting is reproducible, on doubles (where NaN and the infinities are values like
  any other). After a fit of a constructed model has succeeded, fitting the same model
  object again gives the very same state; and constructing a second model from the same
  table, response and configuration and fitting it succeeds as well, with the same
  coefficients, standard errors, p-values and results. For the logit family the
  coefficients are what the minimizer returns from the starting vector with 0.1 in each of
  the \<open>num_vars\<close> coordinates, a constant that is not zero and is no function of the
  data. (The library, the minimizer included, is a function: that the same call gives the
  same answer is how it is modelled.)
\<close>

theorem refit_reproduces:
  fixes L :: "fl numlib"
  assumes "init s x y ci rt = Inr (s1, m)" and "fit_model L s1 m = Inr (s2, m2)"
  shows "fit_model L s2 m2 = Inr (s2, m2) \<and>
         (\<exists>s3 m' m3. init s2 x y ci rt = Inr (s3, m') \<and> fit_model L s3 m' = Inr (s3, m3) \<and>
            Beta_hat m3 = Beta_hat m2 \<and> stdError m3 = stdError m2 \<and> p_val m3 = p_val m2 \<and>
            results m3 = results m2) \<and>
         (rt = ''logit'' \<longrightarrow>
            (\<exists>yf xf. get_frame s1 (y2 m) = Inr yf \<and> get_frame s1 (self_x m) = Inr xf \<and>
               Beta_hat m2 = Some (res_x (minimize L (\<lambda>b. loglike L b yf xf)
                                             (replicate (num_vars m) (Fin (1 / 10))))))) \<and>
         Fin (1 / 10) \<noteq> 0"
proof -
  from init_InrD[OF assms(1)] obtain fx sy where
    lx: "lookup s x = Some (DataFrame fx)" and ly: "lookup s y = Some (Series sy)"
    and rt: "rt = ''ols'' \<or> rt = ''logit''"
    by blast
  from init_constructed[OF lx ly rt, of ci] assms(1)
  have c: "constructed s1 m (design fx ci) sy rt" and pre: "take (length s) s1 = s"
    by auto
  from fit_model_inputs[OF assms(2)] have s2: "s2 = s1"
    by simp
  have "length (take (length s) s1) = length s"
    using pre by simp
  then have len: "length s \<le> length s1"
    by simp
  have lt: "x < length s" "y < length s"
    using lx ly by (simp_all add: lookup_def split: if_splits)
  have old: "a < length s \<Longrightarrow> lookup s1 a = lookup s a" for a
    using pre len by (simp add: lookup_def) (metis nth_take)
  have lx1: "lookup s1 x = Some (DataFrame fx)" and ly1: "lookup s1 y = Some (Series sy)"
    using old[OF lt(1)] old[OF lt(2)] lx ly by simp_all
  from init_constructed[OF lx1 ly1 rt, of ci]
  obtain s3 m' where i3: "init s1 x y ci rt = Inr (s3, m')"
    and c3: "constructed s3 m' (design fx ci) sy rt"
    by blast
  from fit_model_same_data[OF c c3 rt] assms(2) s2
  obtain m3 where "fit_model L s3 m' = Inr (s3, m3)" "Beta_hat m3 = Beta_hat m2"
    "stdError m3 = stdError m2" "p_val m3 = p_val m2" "results m3 = results m2"
    by auto
  with i3 have second: "\<exists>s3 m' m3. init s2 x y ci rt = Inr (s3, m') \<and>
      fit_model L s3 m' = Inr (s3, m3) \<and>
            Beta_hat m3 = Beta_hat m2 \<and> stdError m3 = stdError m2 \<and> p_val m3 = p_val m2 \<and>
            results m3 = results m2"
    unfolding s2 by blast
  have start: "\<exists>yf xf. get_frame s1 (y2 m) = Inr yf \<and> get_frame s1 (self_x m) = Inr xf \<and>
               Beta_hat m2 = Some (res_x (minimize L (\<lambda>b. loglike L b yf xf)
                                             (replicate (num_vars m) (Fin (1 / 10)))))"
    if "rt = ''logit''"
  proof -
    from c that have "regression_type m = ''logit''"
      by (simp add: constructed_def)
    with assms(2) have "logistic_regression L s1 m = Inr m2"
      by (auto simp: fit_model_def bindE_eq_Inr)
    then show ?thesis
      unfolding logistic_regression_iff
      by (auto simp: logit_fitted_def logit_betas_def tenth_fl)
  qed
  show ?thesis
    using fit_model_refit[OF assms(2)] second start
    by (simp add: zero_fl_def)
qed

theorem refit_reproduces_witness:
  "init two_store 0 1 False ''logit'' = Inr (two_built, two_model ''logit'') \<and>
   (\<exists>m2. fit_model (fl_lib gives_up) two_built (two_model ''logit'') = Inr (two_built, m2) \<and>
      fit_model (fl_lib gives_up) two_built m2 = Inr (two_built, m2) \<and>
      (\<exists>s3 m' m3. init two_built 0 1 False ''logit'' = Inr (s3, m') \<and>
         fit_model (fl_lib gives_up) s3 m' = Inr (s3, m3) \<and>
         Beta_hat m3 = Beta_hat m2 \<and> stdError m3 = stdError m2 \<and> p_val m3 = p_val m2 \<and>
         results m3 = results m2) \<and>
      Beta_hat m2 = Some [Fin (1 / 10)])"
proof -
  have i: "init two_store 0 1 False ''logit'' = Inr (two_built, two_model ''logit'')"
    by (rule two_init) simp
  have c: "constructed two_built (two_model ''logit'') two_x two_y ''logit''"
    by (rule two_constructed) simp
  have b: "logit_betas (fl_lib gives_up) (two_model ''logit'') (frame_of_series two_y) two_x =
      [Fin (1 / 10)]"
    by (simp add: logit_betas_def fl_lib_def gives_up_def two_model_def tenth_fl)
  have l: "length (logit_betas (fl_lib gives_up) (two_model ''logit'') (frame_of_series two_y)
      two_x) = length (columns two_x)"
    unfolding b by (simp add: two_x_def)
  have w: "wf_array (length (columns two_x)) (length (columns two_x))
      \<lparr>ncols = 1, rws = [[Fin (1 / 5)]]\<rparr>"
    by (simp add: wf_array_def two_x_def)
  define m2 where "m2 = logit_fitted (fl_lib gives_up) (two_model ''logit'')
      (frame_of_series two_y) two_x \<lparr>ncols = 1, rws = [[Fin (1 / 5)]]\<rparr>
      (map2 (/) (logit_betas (fl_lib gives_up) (two_model ''logit'') (frame_of_series two_y) two_x)
                (logit_se (fl_lib gives_up) (two_model ''logit'') (frame_of_series two_y)
                   \<lparr>ncols = 1, rws = [[Fin (1 / 5)]]\<rparr>))"
  have f: "fit_model (fl_lib gives_up) two_built (two_model ''logit'') = Inr (two_built, m2)"
    unfolding m2_def by (rule fit_model_logit_Inr[OF c two_inverse w l])
  have bh: "Beta_hat m2 = Some [Fin (1 / 10)]"
    by (simp add: m2_def logit_fitted_def b)
  from refit_reproduces[OF i f] i f bh show ?thesis
    by blast
qed

text \<open>
  C10. Neither the constructor nor any number of calls of \<open>fit_model\<close> changes the
  caller's table or response. Whenever the constructor returns a model for the caller's
  objects at the addresses \<open>x\<close> and \<open>y\<close>, and \<open>fit_model\<close> has then been called
  \<open>n\<close> times, the store holds at \<open>x\<close> and \<open>y\<close> what it held before the
  construction, and indeed every object that was there before is as it was. The table with
  the intercept column, the one-column frame of the response and the list of names are
  objects of the model's own, at addresses that did not exist before; \<open>self.y\<close> is the
  caller's Series itself, which nothing writes to.
\<close>

theorem caller_objects_untouched:
  assumes "init s x y ci rt = Inr (s1, m)" and "fit_times L n s1 m = Inr (s2, m2)"
  shows "lookup s2 x = lookup s x \<and> lookup s2 y = lookup s y \<and> take (length s) s2 = s \<and>
         lookup s1 x = lookup s x \<and> lookup s1 y = lookup s y \<and>
         length s \<le> self_x m2 \<and> length s \<le> y2 m2 \<and> length s \<le> x_list m2 \<and> self_y m2 = y"
proof -
  from init_InrD[OF assms(1)] obtain fx sy where
    lx: "lookup s x = Some (DataFrame fx)" and ly: "lookup s y = Some (Series sy)"
    and rt: "rt = ''ols'' \<or> rt = ''logit''"
    by blast
  from init_constructed[OF lx ly rt, of ci] assms(1)
  have pre: "take (length s) s1 = s" and own: "length s \<le> self_x m" "length s \<le> y2 m"
    "length s \<le> x_list m" "self_y m = y"
    by auto
  from fit_times_inputs[OF assms(2)] have s2: "s2 = s1" and same: "same_inputs m m2"
    by simp_all
  have lt: "x < length s" "y < length s"
    using lx ly by (simp_all add: lookup_def split: if_splits)
  have "length (take (length s) s1) = length s"
    using pre by simp
  then have len: "length s \<le> length s1"
    by simp
  have old: "a < length s \<Longrightarrow> lookup s1 a = lookup s a" for a
    using pre len by (simp add: lookup_def) (metis nth_take)
  show ?thesis
    using old[OF lt(1)] old[OF lt(2)] pre own same s2
    by (simp add: same_inputs_def)
qed

theorem caller_objects_untouched_witness:
  "init demo_store 0 1 True ''ols'' = Inr (demo_built, demo_model ''ols'') \<and>
   (\<exists>m2. fit_times demo_lib 2 demo_built (demo_model ''ols'') = Inr (demo_built, m2) \<and>
      lookup demo_built 0 = Some (DataFrame demo_x) \<and>
      lookup demo_built 1 = Some (Series demo_y) \<and>
      take 2 demo_built = demo_store \<and> 2 \<le> self_x m2 \<and> self_y m2 = 1)"
proof -
  have i: "init demo_store 0 1 True ''ols'' = Inr (demo_built, demo_model ''ols'')"
    by (rule demo_init) simp
  have c: "constructed demo_built (demo_model ''ols'') (design demo_x True) demo_y ''ols''"
    by (rule demo_constructed) simp
  from fit_times_ols_Inr[OF c demo_shapes(1) demo_inverse demo_shapes(2), of 2]
  obtain m2 where f: "fit_times demo_lib 2 demo_built (demo_model ''ols'') = Inr (demo_built, m2)"
    by blast
  have "length demo_store = 2"
    by (simp add: demo_store_def)
  with caller_objects_untouched[OF i f] demo_lookup
  have "lookup demo_built 0 = Some (DataFrame demo_x)" "lookup demo_built 1 = Some (Series demo_y)"
    "take 2 demo_built = demo_store" "2 \<le> self_x m2" "self_y m2 = 1"
    by simp_all
  with i f show ?thesis
    by blast
qed

end
